theory Spec2Isabelle
  imports Main "HOL-Library.AList"
begin

section \<open>Values and strings of the platform\<close>

text \<open>
  The toolkit is TypeScript run by Bun. Two kinds of text occur. The text of a file, of a
  template, of a content document and of a response body is a \<open>utext\<close>: the list of its
  Unicode code points (integers), as \<open>readFileSync(p, 'utf-8')\<close> and \<open>response.text()\<close> decode it; this
  is the text that is searched for placeholders and encoded as bytes. The strings the code
  computes with beside it (names, option values, header values, messages, the strings of a
  parsed document) are \<^typ>\<open>string\<close>s, whose characters are code units below 256; \<open>wide\<close>
  puts such a string into a text. A parsed JSON document is a tree. JSON numbers are restricted
  to integers: the code only ever tests a number for being zero. An object is an association
  list in insertion order; \<open>map_of\<close> reads a property, \<open>AList.update\<close> assigns one and
  \<open>AList.delete\<close> deletes one.
\<close>

type_synonym utext = "int list"

definition wide :: "string \<Rightarrow> utext" where
  "wide s = map of_char s"

datatype json =
    JNull
  | JBool bool
  | JNumber int
  | JString string
  | JArray "json list"
  | JObject "(string \<times> json) list"

text \<open>What \<open>if (v)\<close> and \<open>!v\<close> test, for a value that came out of \<open>JSON.parse\<close>.\<close>

fun truthy :: "json \<Rightarrow> bool" where
  "truthy JNull = False"
| "truthy (JBool b) = b"
| "truthy (JNumber n) = (n \<noteq> 0)"
| "truthy (JString s) = (s \<noteq> [])"
| "truthy (JArray xs) = True"
| "truthy (JObject kvs) = True"

text \<open>An optional string option of a call: absent and the empty string are both falsy.\<close>

definition truthy_str :: "string option \<Rightarrow> bool" where
  "truthy_str x = (case x of None \<Rightarrow> False | Some s \<Rightarrow> s \<noteq> [])"

text \<open>\<open>x || d\<close> on an optional string.\<close>

definition or_default :: "string option \<Rightarrow> string \<Rightarrow> string" where
  "or_default x d = (case x of None \<Rightarrow> d | Some s \<Rightarrow> if s = [] then d else s)"

definition nl :: string where
  "nl = [CHR 0x0A]"

definition dq :: string where
  "dq = [CHR 0x22]"

text \<open>\<open>s.endsWith(suf)\<close>.\<close>

definition endsWith :: "string \<Rightarrow> string \<Rightarrow> bool" where
  "endsWith s suf = (length suf \<le> length s \<and> drop (length s - length suf) s = suf)"

text \<open>\<open>s.replace(pat, '')\<close> with a string pattern: only the first occurrence goes.\<close>

fun removeFirst :: "string \<Rightarrow> string \<Rightarrow> string" where
  "removeFirst pat [] = []"
| "removeFirst pat (c # cs) =
     (if take (length pat) (c # cs) = pat then drop (length pat) (c # cs)
      else c # removeFirst pat cs)"

text \<open>\<open>xs.join(sep)\<close>.\<close>

fun joinWith :: "'a list \<Rightarrow> 'a list list \<Rightarrow> 'a list" where
  "joinWith sep [] = []"
| "joinWith sep [x] = x"
| "joinWith sep (x # y # ys) = x @ sep @ joinWith sep (y # ys)"

text \<open>\<open>s.split(c)\<close> for a one-character separator: never an empty list.\<close>

fun split_on :: "char \<Rightarrow> string \<Rightarrow> string list" where
  "split_on c [] = [[]]"
| "split_on c (x # xs) =
     (if x = c then [] # split_on c xs
      else (case split_on c xs of [] \<Rightarrow> [[x]] | t # ts \<Rightarrow> (x # t) # ts))"

section \<open>Paths and the file system\<close>

text \<open>
  An absolute, normalised path is the list of its components below the root; the root is
  \<open>[]\<close>. \<open>walk\<close> is what \<open>path.join\<close> and \<open>path.resolve\<close> do with the components of a
  further argument.
\<close>

type_synonym fpath = "string list"

fun walk :: "fpath \<Rightarrow> string list \<Rightarrow> fpath" where
  "walk p [] = p"
| "walk p (c # cs) =
     (if c = [] \<or> c = ''.'' then walk p cs
      else if c = ''..'' then walk (butlast p) cs
      else walk (p @ [c]) cs)"

definition isAbsolute :: "string \<Rightarrow> bool" where
  "isAbsolute s = (case s of [] \<Rightarrow> False | c # _ \<Rightarrow> c = CHR ''/'')"

definition joinPath :: "fpath \<Rightarrow> string \<Rightarrow> fpath" where
  "joinPath p s = walk p (split_on CHR ''/'' s)"

text \<open>\<open>path.resolve(cwd, s)\<close>: an absolute argument restarts at the root.\<close>

definition resolvePath :: "fpath \<Rightarrow> string \<Rightarrow> fpath" where
  "resolvePath base s = walk (if isAbsolute s then [] else base) (split_on CHR ''/'' s)"

definition pathString :: "fpath \<Rightarrow> string" where
  "pathString p = (if p = [] then ''/'' else concat (map (\<lambda>c. CHR ''/'' # c) p))"

datatype node = File utext int | Dir int

record FHIRConfig =
  name :: string
  fhirBaseUrl :: string
  accessToken :: "string option"
  mode :: string

record http_request =
  url :: string
  req_method :: string
  req_headers :: "(string \<times> string) list"
  req_body :: "json option"

record http_response =
  status :: nat
  statusText :: string
  resp_headers :: "(string \<times> string) list"
  bodyText :: utext

text \<open>
  The world a run sees: the working directory, the file system (a node per path, each with its
  modification time; \<open>denied\<close> holds of the paths on which the operating system refuses to
  read, list, create or write, for want of permission or of space), and the platform functions
  the code calls: \<open>JSON.parse\<close> (\<open>None\<close> is its \<open>SyntaxError\<close>, whose message is
  \<open>parseMessage\<close>; \<open>parseConfig\<close> is \<open>JSON.parse\<close> of a text that has the
  \<open>FHIRConfig\<close> shape), \<open>fetch\<close> (\<open>None\<close> is a rejected promise), the dynamic
  \<open>import\<close> of a generator script (the files it leaves behind; \<open>None\<close> when it throws) and
  the clock.
\<close>

record world =
  cwd :: fpath
  nodes :: "(fpath \<times> node) list"
  denied :: "fpath \<Rightarrow> bool"
  jsonParse :: "utext \<Rightarrow> json option"
  parseMessage :: "utext \<Rightarrow> string"
  parseConfig :: "utext \<Rightarrow> FHIRConfig option"
  fetch :: "http_request \<Rightarrow> http_response option"
  importModule :: "fpath \<Rightarrow> (fpath \<times> utext) list option"
  nowMs :: nat
  nowISO :: string
  nowTimeString :: string
  responseMs :: nat
  responseISO :: string

definition existsSync :: "world \<Rightarrow> fpath \<Rightarrow> bool" where
  "existsSync w p = (map_of (nodes w) p \<noteq> None)"

text \<open>The root is a directory; any other path is one when its node says so.\<close>

definition isDirectory :: "world \<Rightarrow> fpath \<Rightarrow> bool" where
  "isDirectory w p =
     (case map_of (nodes w) p of
        Some (Dir t) \<Rightarrow> True
      | Some (File c t) \<Rightarrow> False
      | None \<Rightarrow> p = [])"

text \<open>\<open>fs.readFileSync(p, 'utf-8')\<close>; \<open>None\<close> is the error it throws.\<close>

definition readFileSync :: "world \<Rightarrow> fpath \<Rightarrow> utext option" where
  "readFileSync w p =
     (case map_of (nodes w) p of
        Some (File c t) \<Rightarrow> if denied w p then None else Some c
      | _ \<Rightarrow> None)"

definition mtime :: "world \<Rightarrow> fpath \<Rightarrow> int" where
  "mtime w p = (case map_of (nodes w) p of Some (File c t) \<Rightarrow> t | Some (Dir t) \<Rightarrow> t | None \<Rightarrow> 0)"

text \<open>
  \<open>fs.readdirSync(d)\<close>: the names of the nodes directly under \<open>d\<close>, in listing order;
  \<open>None\<close> is the error it throws when \<open>d\<close> is not a directory or may not be listed.
\<close>

definition readdirSync :: "world \<Rightarrow> fpath \<Rightarrow> string list option" where
  "readdirSync w d =
     (if isDirectory w d \<and> \<not> denied w d then
        Some (map last (filter (\<lambda>p. p \<noteq> [] \<and> butlast p = d) (map fst (nodes w))))
      else None)"

text \<open>
  Whether \<open>fs.writeFileSync(p, data)\<close> succeeds: the directory of \<open>p\<close> exists, \<open>p\<close> is
  not itself a directory and the write is not refused (\<open>overwritable\<close> is the part that is
  left to check when the directory is known to exist). Whether
  \<open>mkdirSync(p, { recursive: true })\<close> succeeds: no component on the way is a file, and none
  that is missing is refused.
\<close>

definition overwritable :: "world \<Rightarrow> fpath \<Rightarrow> bool" where
  "overwritable w p = (\<not> isDirectory w p \<and> \<not> denied w p)"

definition writable :: "world \<Rightarrow> fpath \<Rightarrow> bool" where
  "writable w p = (p \<noteq> [] \<and> isDirectory w (butlast p) \<and> overwritable w p)"

definition mkdirSync :: "world \<Rightarrow> fpath \<Rightarrow> bool" where
  "mkdirSync w p =
     list_all
       (\<lambda>k. case map_of (nodes w) (take k p) of
               Some (Dir t) \<Rightarrow> True
             | Some (File c t) \<Rightarrow> False
             | None \<Rightarrow> \<not> denied w (take k p))
       [1..<Suc (length p)]"

text \<open>
  What a run leaves: the errors it can throw, the calls it makes on the file system and the
  network, in program order, and how it ends. \<open>WriteFile\<close> and \<open>Mkdir\<close> stand for calls
  that succeeded: a call that fails throws its \<open>IOError\<close> and leaves no event.
  \<open>ConsoleError\<close> is a line on the error stream (the lines of \<open>console.log\<close> are not
  traced); \<open>ReportError e\<close> is the line that reports the message of a caught \<open>e\<close>.
  A file written with \<open>JSON.stringify(v, null, 2)\<close> is recorded by the value \<open>v\<close>.
\<close>

datatype error =
    Error string
  | SyntaxError
  | TypeError
  | IOError fpath
  | ImportFailed fpath
  | FetchFailed

datatype content = Text utext | JsonText json

datatype event =
    Exists fpath
  | ReadFile fpath
  | Chdir fpath
  | Import fpath
  | Mkdir fpath
  | WriteFile fpath content
  | Fetch http_request
  | ConsoleError string
  | ReportError error

datatype outcome = Returned | Exited nat | Thrown error

section \<open>The request executor (\<open>execute\<close>)\<close>

record RequestSpec =
  httpMethod :: string
  path :: string
  bodyFile :: "string option"
  headers :: "(string \<times> string) list option"
  purpose :: string
  configName :: "string option"
  callerDir :: "string option"

text \<open>
  Project root: from the working directory upwards, the first directory holding
  \<open>.fhir-configs\<close>; the root directory is probed last. The argument is the path reversed.
\<close>

fun findUp :: "world \<Rightarrow> string list \<Rightarrow> fpath option" where
  "findUp w [] = (if existsSync w [''.fhir-configs''] then Some [] else None)"
| "findUp w (c # up) =
     (if existsSync w (rev (c # up) @ [''.fhir-configs'']) then Some (rev (c # up))
      else findUp w up)"

definition findProjectRoot :: "world \<Rightarrow> error + fpath" where
  "findProjectRoot w =
     (case findUp w (rev (cwd w)) of
        None \<Rightarrow> Inl (Error ''Could not find .fhir-configs directory'')
      | Some r \<Rightarrow> Inr r)"

definition readConfig :: "world \<Rightarrow> fpath \<Rightarrow> error + FHIRConfig" where
  "readConfig w p =
     (case readFileSync w p of
        None \<Rightarrow> Inl (IOError p)
      | Some t \<Rightarrow> (case parseConfig w t of None \<Rightarrow> Inl SyntaxError | Some c \<Rightarrow> Inr c))"

text \<open>\<open>fs.readdirSync(configsDir).filter(f => f.endsWith('.json'))\<close>.\<close>

definition configFiles :: "world \<Rightarrow> fpath \<Rightarrow> string list option" where
  "configFiles w d = map_option (filter (\<lambda>f. endsWith f ''.json'')) (readdirSync w d)"

text \<open>Config selection of \<open>src/assets/lib/fhir-request.ts\<close>: the most recently modified file.\<close>

definition byRecency :: "world \<Rightarrow> fpath \<Rightarrow> string list \<Rightarrow> fpath list" where
  "byRecency w d fs = sort_key (\<lambda>p. - mtime w p) (map (\<lambda>f. joinPath d f) fs)"

definition loadConfig :: "world \<Rightarrow> fpath \<Rightarrow> string option \<Rightarrow> error + FHIRConfig" where
  "loadConfig w root cn =
     (let configsDir = joinPath root ''.fhir-configs'' in
      if truthy_str cn then readConfig w (joinPath configsDir (the cn @ ''.json''))
      else (case configFiles w configsDir of
              None \<Rightarrow> Inl (IOError configsDir)
            | Some fs \<Rightarrow>
               (case byRecency w configsDir fs of
                  [] \<Rightarrow> Inl (Error ''No FHIR config found'')
                | p # ps \<Rightarrow> readConfig w p)))"

text \<open>Config selection of the other copy of the library (\<open>src/unnamed/part_002\<close>).\<close>

definition noConfigsMessage :: string where
  "noConfigsMessage =
     ''No FHIR configs found in .fhir-configs/'' @ nl @
     ''Run the setup script to create a configuration:'' @ nl @
     ''  bun .claude/skills/fhir-connectathon-notes/assets/config/setup.ts''"

definition multipleConfigsMessage :: "string list \<Rightarrow> string" where
  "multipleConfigsMessage fs =
     ''Multiple FHIR configs found: '' @ joinWith '', '' (map (removeFirst ''.json'') fs) @ nl @
     ''Please specify which config to use by adding configName to execute():'' @ nl @ nl @
     ''  await execute({'' @ nl @
     ''    ...,'' @ nl @
     ''    configName: '' @ dq @ ''your-config-name'' @ dq @ '','' @ nl @
     ''    ...'' @ nl @
     ''  });'' @ nl"

definition loadConfig_part_002 :: "world \<Rightarrow> fpath \<Rightarrow> string option \<Rightarrow> error + FHIRConfig" where
  "loadConfig_part_002 w root cn =
     (let configsDir = joinPath root ''.fhir-configs'' in
      if truthy_str cn then
        (let configPath = joinPath configsDir (the cn @ ''.json'') in
         if \<not> existsSync w configPath then
           Inl (Error (''Config '' @ dq @ the cn @ dq @ '' not found at '' @ pathString configPath))
         else readConfig w configPath)
      else
        (case configFiles w configsDir of
           None \<Rightarrow> Inl (IOError configsDir)
         | Some fs \<Rightarrow>
            if length fs = 0 then Inl (Error noConfigsMessage)
            else if length fs > 1 then Inl (Error (multipleConfigsMessage fs))
            else readConfig w (joinPath configsDir (hd fs))))"

text \<open>
  Headers: \<open>Accept\<close> first, the caller's entries spread over it, then the bearer token, and
  (with the body) the content type.
\<close>

definition spread :: "(string \<times> string) list \<Rightarrow> (string \<times> string) list \<Rightarrow> (string \<times> string) list" where
  "spread src dst = fold (\<lambda>(k, v). AList.update k v) src dst"

definition baseHeaders :: "FHIRConfig \<Rightarrow> RequestSpec \<Rightarrow> (string \<times> string) list" where
  "baseHeaders cfg spec =
     (let hs = spread (case headers spec of None \<Rightarrow> [] | Some h \<Rightarrow> h)
                 [(''Accept'', ''application/fhir+json'')]
      in if truthy_str (accessToken cfg) \<and> mode cfg \<noteq> ''open''
         then AList.update ''Authorization'' (''Bearer '' @ the (accessToken cfg)) hs
         else hs)"

text \<open>
  What the caller's \<open>headers\<close> object holds for a name (a later binding of a name
  overrides an earlier one).
\<close>

definition callerHeader :: "RequestSpec \<Rightarrow> string \<Rightarrow> string option" where
  "callerHeader spec k = map_of (rev (case headers spec of None \<Rightarrow> [] | Some h \<Rightarrow> h)) k"


definition loadBody :: "world \<Rightarrow> fpath \<Rightarrow> string \<Rightarrow> error + json" where
  "loadBody w root f =
     (let bodyPath = (if isAbsolute f then resolvePath [] f else joinPath root f) in
      case readFileSync w bodyPath of
        None \<Rightarrow> Inl (IOError bodyPath)
      | Some t \<Rightarrow> (case jsonParse w t of None \<Rightarrow> Inl SyntaxError | Some j \<Rightarrow> Inr j))"

definition buildRequest :: "world \<Rightarrow> fpath \<Rightarrow> FHIRConfig \<Rightarrow> RequestSpec \<Rightarrow> error + http_request" where
  "buildRequest w root cfg spec =
     (let u = fhirBaseUrl cfg @ path spec; hs = baseHeaders cfg spec in
      if truthy_str (bodyFile spec) then
        (case loadBody w root (the (bodyFile spec)) of
           Inl e \<Rightarrow> Inl e
         | Inr j \<Rightarrow>
             Inr \<lparr>url = u, req_method = httpMethod spec,
                  req_headers = AList.update ''Content-Type'' ''application/fhir+json'' hs,
                  req_body = (if truthy j then Some j else None)\<rparr>)
      else Inr \<lparr>url = u, req_method = httpMethod spec, req_headers = hs, req_body = None\<rparr>)"

text \<open>
  After the response: the two files, then the exit code. Neither \<open>writeFileSync\<close> is
  guarded: when the first fails nothing is written, when the second fails the metadata file
  is all there is, and in both cases the error leaves \<open>execute\<close> before the status is
  looked at.
\<close>

definition responseMetadata :: "world \<Rightarrow> http_response \<Rightarrow> json" where
  "responseMetadata w r =
     JObject
       [(''timestamp'', JString (responseISO w)),
        (''httpStatus'', JNumber (int (status r))),
        (''statusText'', JString (statusText r)),
        (''headers'', JObject (map (\<lambda>(k, v). (k, JString v)) (resp_headers r))),
        (''timing'', JObject
           [(''requestSentAt'', JString (nowISO w)),
            (''responseReceivedAt'', JString (responseISO w)),
            (''durationMs'', JNumber (int (responseMs w) - int (nowMs w)))])]"

definition responseExt :: "world \<Rightarrow> http_response \<Rightarrow> string" where
  "responseExt w r = (case jsonParse w (bodyText r) of None \<Rightarrow> ''txt'' | Some j \<Rightarrow> ''json'')"

definition responseContent :: "world \<Rightarrow> http_response \<Rightarrow> content" where
  "responseContent w r =
     (case jsonParse w (bodyText r) of
        None \<Rightarrow> Text (bodyText r)
      | Some j \<Rightarrow> if truthy j then JsonText j else Text (bodyText r))"

definition outputDirOf :: "world \<Rightarrow> RequestSpec \<Rightarrow> fpath" where
  "outputDirOf w spec =
     (if truthy_str (callerDir spec) then resolvePath (cwd w) (the (callerDir spec)) else cwd w)"

definition handleResponse :: "world \<Rightarrow> RequestSpec \<Rightarrow> http_response \<Rightarrow> event list \<times> outcome" where
  "handleResponse w spec r =
     (let metadataPath = joinPath (outputDirOf w spec) ''response-metadata.json'';
          bodyPath = joinPath (outputDirOf w spec) (''response-body.'' @ responseExt w r)
      in if \<not> writable w metadataPath then ([], Thrown (IOError metadataPath))
         else if \<not> writable w bodyPath then
           ([WriteFile metadataPath (JsonText (responseMetadata w r))], Thrown (IOError bodyPath))
         else if status r \<ge> 400 then
           ([WriteFile metadataPath (JsonText (responseMetadata w r)),
             WriteFile bodyPath (responseContent w r),
             ConsoleError (nl @ ''Error response received'')],
            Exited 1)
         else
           ([WriteFile metadataPath (JsonText (responseMetadata w r)),
             WriteFile bodyPath (responseContent w r)],
            Returned))"

definition sendRequest :: "world \<Rightarrow> fpath \<Rightarrow> FHIRConfig \<Rightarrow> RequestSpec \<Rightarrow> event list \<times> outcome" where
  "sendRequest w root cfg spec =
     (case buildRequest w root cfg spec of
        Inl e \<Rightarrow> ([], Thrown e)
      | Inr req \<Rightarrow>
         (case fetch w req of
            None \<Rightarrow> ([Fetch req], Thrown FetchFailed)
          | Some r \<Rightarrow> (case handleResponse w spec r of (evs, out) \<Rightarrow> (Fetch req # evs, out))))"

definition execute_with ::
  "(world \<Rightarrow> fpath \<Rightarrow> string option \<Rightarrow> error + FHIRConfig) \<Rightarrow> world \<Rightarrow> RequestSpec
     \<Rightarrow> event list \<times> outcome" where
  "execute_with load w spec =
     (case findProjectRoot w of
        Inl e \<Rightarrow> ([], Thrown e)
      | Inr root \<Rightarrow>
         (case load w root (configName spec) of
            Inl e \<Rightarrow> ([], Thrown e)
          | Inr cfg \<Rightarrow> sendRequest w root cfg spec))"

text \<open>\<open>execute\<close> of \<open>src/assets/lib/fhir-request.ts\<close> and of \<open>src/unnamed/part_002\<close>.\<close>

definition execute :: "world \<Rightarrow> RequestSpec \<Rightarrow> event list \<times> outcome" where
  "execute = execute_with loadConfig"

definition execute_part_002 :: "world \<Rightarrow> RequestSpec \<Rightarrow> event list \<times> outcome" where
  "execute_part_002 = execute_with loadConfig_part_002"

section \<open>Placeholder substitution\<close>

text \<open>
  \<open>s.replace(/\{\{NAME\}\}/g, rep)\<close>: the text is scanned once from the left, every match
  of the literal pattern is replaced, and the scan goes on behind the match. The replacement
  is a string, so JavaScript expands its \<open>$\<close> patterns: \<open>$$\<close> is a dollar sign,
  \<open>$&\<close> the matched text, \<open>$`\<close> the text before the match and \<open>$'\<close> the text
  after it (the patterns have no capture groups, so \<open>$1\<close> stays as it is).
\<close>

fun expand :: "utext \<Rightarrow> utext \<Rightarrow> utext \<Rightarrow> utext \<Rightarrow> utext" where
  "expand left matched right [] = []"
| "expand left matched right [c] = [c]"
| "expand left matched right (c # d # r) =
     (if c = of_char CHR ''$'' then
        (if d = of_char CHR ''$'' then of_char CHR ''$'' # expand left matched right r
         else if d = of_char CHR ''&'' then matched @ expand left matched right r
         else if d = of_char CHR 0x60 then left @ expand left matched right r
         else if d = of_char CHR 0x27 then right @ expand left matched right r
         else c # expand left matched right (d # r))
      else c # expand left matched right (d # r))"

fun startsWith :: "'a list \<Rightarrow> 'a list \<Rightarrow> bool" where
  "startsWith s [] = True"
| "startsWith [] (p # ps) = False"
| "startsWith (c # cs) (p # ps) = (c = p \<and> startsWith cs ps)"

function replaceFrom :: "utext \<Rightarrow> utext \<Rightarrow> utext \<Rightarrow> utext \<Rightarrow> utext" where
  "replaceFrom pat rep left s =
     (if s = [] \<or> pat = [] then s
      else if startsWith s pat then
        expand left pat (drop (length pat) s) rep
          @ replaceFrom pat rep (left @ pat) (drop (length pat) s)
      else hd s # replaceFrom pat rep (left @ [hd s]) (tl s))"
  by pat_completeness auto
termination
  by (relation "measure (\<lambda>(pat, rep, left, s). length s)") auto

declare replaceFrom.simps [simp del]

definition ph :: "string \<Rightarrow> string" where
  "ph n = ''{{'' @ n @ ''}}''"

text \<open>One \<open>replace\<close> of a text: the placeholder of a name by a string.\<close>

definition sub :: "string \<Rightarrow> string \<Rightarrow> utext \<Rightarrow> utext" where
  "sub n rep s = replaceFrom (wide (ph n)) (wide rep) [] s"

text \<open>White space as \<open>\s\<close> and \<open>trim\<close> see it, among the code units below 256.\<close>

definition isSpace :: "char \<Rightarrow> bool" where
  "isSpace c = (c \<in> set [CHR 0x09, CHR 0x0A, CHR 0x0B, CHR 0x0C, CHR 0x0D, CHR 0x20, CHR 0xA0])"

definition trim :: "string \<Rightarrow> string" where
  "trim s = rev (dropWhile isSpace (rev (dropWhile isSpace s)))"

text \<open>\<open>s.includes(t)\<close>.\<close>

fun includes_str :: "'a list \<Rightarrow> 'a list \<Rightarrow> bool" where
  "includes_str [] t = (t = [])"
| "includes_str (c # cs) t = (take (length t) (c # cs) = t \<or> includes_str cs t)"

text \<open>\<open>s.replace(/^Dr\.\s*/, '')\<close>.\<close>

definition stripDr :: "string \<Rightarrow> string" where
  "stripDr s = (if take 3 s = ''Dr.'' then dropWhile isSpace (drop 3 s) else s)"

definition nth_opt :: "'a list \<Rightarrow> nat \<Rightarrow> 'a option" where
  "nth_opt xs i = (if i < length xs then Some (xs ! i) else None)"

text \<open>\<open>n.toString()\<close> of a natural number.\<close>

function showNat :: "nat \<Rightarrow> string" where
  "showNat n =
     (if n < 10 then [char_of (48 + n)] else showNat (n div 10) @ [char_of (48 + n mod 10)])"
  by pat_completeness auto
termination
  by (relation "measure id") auto

section \<open>The template localizer (\<open>src/unnamed/part_000\<close>)\<close>

text \<open>
  \<open>encounterContained\<close> is typed \<open>any\<close>: a value, of which a string is JSON text still to
  be parsed.
\<close>

record LocalizationOptions =
  type :: string
  patientId :: string
  patientName :: "string option"
  authorReference :: "string option"
  authorDisplay :: "string option"
  encounterReference :: "string option"
  encounterDisplay :: "string option"
  encounterContained :: "json option"
  identifierSystem :: "string option"
  server :: string
  outputDir :: "string option"
  writeToFile :: "bool option"

record TemplateMapping =
  template :: string
  contentFile :: "string option"
  contentGenerator :: "string option"
  contentType :: string
  noteType :: string

definition TEMPLATE_MAPPINGS :: "(string \<times> TemplateMapping) list" where
  "TEMPLATE_MAPPINGS =
     [(''consultation'',
        \<lparr>template = ''consultation-note.json'', contentFile = Some ''consultation-note.txt'',
         contentGenerator = None, contentType = ''text/plain; charset=utf-8'',
         noteType = ''Consultation note''\<rparr>),
      (''progress'',
        \<lparr>template = ''progress-note.json'', contentFile = Some ''progress-note.txt'',
         contentGenerator = None, contentType = ''text/plain; charset=utf-8'',
         noteType = ''Progress note''\<rparr>),
      (''pdf'',
        \<lparr>template = ''consultation-note-pdf.json'', contentFile = None,
         contentGenerator = Some ''generate-pdf.ts'', contentType = ''application/pdf'',
         noteType = ''Consultation note''\<rparr>),
      (''cda'',
        \<lparr>template = ''discharge-summary-cda-xml.json'', contentFile = None,
         contentGenerator = Some ''generate-cda-xml.ts'', contentType = ''application/cda+xml'',
         noteType = ''Discharge summary''\<rparr>),
      (''xhtml'',
        \<lparr>template = ''discharge-summary-xhtml.json'', contentFile = None,
         contentGenerator = Some ''generate-xhtml.ts'', contentType = ''application/xhtml+xml'',
         noteType = ''Discharge summary''\<rparr>),
      (''html'',
        \<lparr>template = ''progress-note-html.json'', contentFile = None,
         contentGenerator = Some ''generate-html.ts'', contentType = ''text/html; charset=utf-8'',
         noteType = ''Progress note''\<rparr>),
      (''large'',
        \<lparr>template = ''large-note.json'', contentFile = None,
         contentGenerator = Some ''generate-large-file.ts'',
         contentType = ''text/plain; charset=utf-8'', noteType = ''Summary of episode note''\<rparr>),
      (''patient-asserted'',
        \<lparr>template = ''patient-asserted-note.json'', contentFile = Some ''patient-log.txt'',
         contentGenerator = None, contentType = ''text/plain; charset=utf-8'',
         noteType = ''Progress note''\<rparr>)]"

text \<open>
  \<open>table[key]\<close> on an object literal also finds what every object inherits from
  \<open>Object.prototype\<close>; such a value is truthy and has none of the table's fields.
\<close>

datatype 'a jslookup = Own 'a | Inherited | Missing

definition objectPrototypeNames :: "string list" where
  "objectPrototypeNames =
     [''constructor'', ''__proto__'', ''hasOwnProperty'', ''isPrototypeOf'',
      ''propertyIsEnumerable'', ''toLocaleString'', ''toString'', ''valueOf'',
      ''__defineGetter__'', ''__defineSetter__'', ''__lookupGetter__'', ''__lookupSetter__'']"

definition lookupKey :: "(string \<times> 'a) list \<Rightarrow> string \<Rightarrow> 'a jslookup" where
  "lookupKey table k =
     (case map_of table k of
        Some v \<Rightarrow> Own v
      | None \<Rightarrow> if k \<in> set objectPrototypeNames then Inherited else Missing)"

subsection \<open>Names and content placeholders\<close>

definition patientNameOf :: "LocalizationOptions \<Rightarrow> string" where
  "patientNameOf options = or_default (patientName options) ''Test Patient''"

definition patientGiven :: "LocalizationOptions \<Rightarrow> string" where
  "patientGiven options =
     (case nth_opt (split_on CHR '' '' (patientNameOf options)) 0 of None \<Rightarrow> ''Test'' | Some g \<Rightarrow> g)"

definition patientFamily :: "LocalizationOptions \<Rightarrow> string" where
  "patientFamily options =
     (case nth_opt (split_on CHR '' '' (patientNameOf options)) 1 of
        None \<Rightarrow> ''Patient'' | Some f \<Rightarrow> f)"

definition authorDisplayOf :: "LocalizationOptions \<Rightarrow> string" where
  "authorDisplayOf options = or_default (authorDisplay options) ''Dr. Example Provider''"

definition authorParts :: "LocalizationOptions \<Rightarrow> string list" where
  "authorParts options = split_on CHR '' '' (stripDr (authorDisplayOf options))"

definition authorGiven :: "LocalizationOptions \<Rightarrow> string" where
  "authorGiven options =
     (case nth_opt (authorParts options) 0 of
        None \<Rightarrow> ''Example'' | Some g \<Rightarrow> if g = [] then ''Example'' else g)"

definition authorFamily :: "LocalizationOptions \<Rightarrow> string" where
  "authorFamily options =
     (case nth_opt (authorParts options) (length (authorParts options) - 1) of
        None \<Rightarrow> ''Provider'' | Some f \<Rightarrow> if f = [] then ''Provider'' else f)"

definition authorSuffix :: "LocalizationOptions \<Rightarrow> string" where
  "authorSuffix options = (if includes_str (authorDisplayOf options) ''MD'' then ''MD'' else '''')"

definition currentDate :: "world \<Rightarrow> string" where
  "currentDate w = hd (split_on CHR ''T'' (nowISO w))"

definition currentTime :: "world \<Rightarrow> string" where
  "currentTime w = take 5 (hd (split_on CHR '' '' (nowTimeString w)))"

definition currentTimestampCDA :: "world \<Rightarrow> string" where
  "currentTimestampCDA w =
     hd (split_on CHR ''.'' (filter (\<lambda>c. c \<noteq> CHR ''-'' \<and> c \<noteq> CHR '':'') (nowISO w))) @ ''-0500''"

definition replaceContentPlaceholders :: "world \<Rightarrow> utext \<Rightarrow> LocalizationOptions \<Rightarrow> utext" where
  "replaceContentPlaceholders w content options =
     (sub ''CURRENT_TIMESTAMP_CDA'' (currentTimestampCDA w)
     (sub ''CURRENT_TIMESTAMP'' (nowISO w)
     (sub ''CURRENT_TIME'' (currentTime w)
     (sub ''CURRENT_DATE'' (currentDate w)
     (sub ''APP_NAME'' ''FHIR Test App''
     (sub ''AUTHOR_TITLE'' (if authorSuffix options = [] then ''MD'' else authorSuffix options)
     (sub ''AUTHOR_SUFFIX'' (authorSuffix options)
     (sub ''AUTHOR_FAMILY_NAME'' (authorFamily options)
     (sub ''AUTHOR_GIVEN_NAME'' (authorGiven options)
     (sub ''AUTHOR_NAME'' (authorDisplayOf options)
     (sub ''PATIENT_FAMILY_NAME'' (patientFamily options)
     (sub ''PATIENT_GIVEN_NAME'' (patientGiven options)
     (sub ''PATIENT_ID'' (patientId options)
     (sub ''PATIENT_NAME'' (patientNameOf options) content))))))))))))))"

text \<open>The older copy (\<open>src/unnamed/part_001\<close>) has no \<open>APP_NAME\<close> in the content.\<close>

definition replaceContentPlaceholders_part_001 ::
  "world \<Rightarrow> utext \<Rightarrow> LocalizationOptions \<Rightarrow> utext" where
  "replaceContentPlaceholders_part_001 w content options =
     (sub ''CURRENT_TIMESTAMP_CDA'' (currentTimestampCDA w)
     (sub ''CURRENT_TIMESTAMP'' (nowISO w)
     (sub ''CURRENT_TIME'' (currentTime w)
     (sub ''CURRENT_DATE'' (currentDate w)
     (sub ''AUTHOR_TITLE'' (if authorSuffix options = [] then ''MD'' else authorSuffix options)
     (sub ''AUTHOR_SUFFIX'' (authorSuffix options)
     (sub ''AUTHOR_FAMILY_NAME'' (authorFamily options)
     (sub ''AUTHOR_GIVEN_NAME'' (authorGiven options)
     (sub ''AUTHOR_NAME'' (authorDisplayOf options)
     (sub ''PATIENT_FAMILY_NAME'' (patientFamily options)
     (sub ''PATIENT_GIVEN_NAME'' (patientGiven options)
     (sub ''PATIENT_ID'' (patientId options)
     (sub ''PATIENT_NAME'' (patientNameOf options) content)))))))))))))"

subsection \<open>Bytes and base64\<close>

text \<open>
  \<open>Buffer.from(text, 'utf-8')\<close>: one to four bytes for a code point, by its size; what is
  not a Unicode scalar value (a surrogate on its own, a number outside the range up to
  U+10FFFF) is written as U+FFFD, the replacement character. A byte is a \<^typ>\<open>char\<close>.
  \<open>buffer.toString('base64')\<close> is the base64 of RFC 4648 with padding.
\<close>

type_synonym bytes = "char list"

definition utf8_point :: "int \<Rightarrow> bytes" where
  "utf8_point c =
     (if (0xD800 \<le> c \<and> c < 0xE000) \<or> 0x110000 \<le> c \<or> c < 0 then [CHR 0xEF, CHR 0xBF, CHR 0xBD]
      else if c < 0x80 then [char_of c]
      else if c < 0x800 then [char_of (0xC0 + c div 64), char_of (0x80 + c mod 64)]
      else if c < 0x10000 then
        [char_of (0xE0 + c div 4096), char_of (0x80 + c div 64 mod 64), char_of (0x80 + c mod 64)]
      else
        [char_of (0xF0 + c div 262144), char_of (0x80 + c div 4096 mod 64),
         char_of (0x80 + c div 64 mod 64), char_of (0x80 + c mod 64)])"

definition utf8 :: "utext \<Rightarrow> bytes" where
  "utf8 s = concat (map utf8_point s)"

definition b64alphabet :: string where
  "b64alphabet = ''ABCDEFGHIJKLMNOPQRSTUVWXYZabcdefghijklmnopqrstuvwxyz0123456789+/''"

definition b64char :: "nat \<Rightarrow> char" where
  "b64char n = b64alphabet ! n"

fun base64 :: "bytes \<Rightarrow> string" where
  "base64 (a # b # c # r) =
     [b64char (of_char a div 4),
      b64char ((of_char a mod 4) * 16 + of_char b div 16),
      b64char ((of_char b mod 16) * 4 + of_char c div 64),
      b64char (of_char c mod 64)] @ base64 r"
| "base64 [a, b] =
     [b64char (of_char a div 4),
      b64char ((of_char a mod 4) * 16 + of_char b div 16),
      b64char ((of_char b mod 16) * 4),
      CHR ''='']"
| "base64 [a] =
     [b64char (of_char a div 4), b64char ((of_char a mod 4) * 16), CHR ''='', CHR ''='']"
| "base64 [] = []"




subsection \<open>Roots, content and the template\<close>

type_synonym 'a io = "event list \<times> (error + 'a)"

definition andThen :: "'a io \<Rightarrow> ('a \<Rightarrow> 'b io) \<Rightarrow> 'b io" where
  "andThen m f =
     (case m of
        (evs, Inl e) \<Rightarrow> (evs, Inl e)
      | (evs, Inr x) \<Rightarrow> (case f x of (evs', r) \<Rightarrow> (evs @ evs', r)))"

text \<open>
  \<open>getProjectRoot\<close>: from the working directory upwards while the directory is not the
  root; the root itself is never probed. The argument is the path reversed.
\<close>

fun probeUp :: "world \<Rightarrow> string list \<Rightarrow> event list \<times> fpath option" where
  "probeUp w [] = ([], None)"
| "probeUp w (c # up) =
     (if existsSync w (rev (c # up) @ [''.fhir-configs''])
      then ([Exists (rev (c # up) @ [''.fhir-configs''])], Some (rev (c # up)))
      else (case probeUp w up of
              (evs, r) \<Rightarrow> (Exists (rev (c # up) @ [''.fhir-configs'']) # evs, r)))"

definition getProjectRoot :: "world \<Rightarrow> fpath io" where
  "getProjectRoot w =
     (case probeUp w (rev (cwd w)) of
        (evs, None) \<Rightarrow>
          (evs, Inl (Error ''Could not find project root (no .fhir-configs directory found)''))
      | (evs, Some r) \<Rightarrow> (evs, Inr r))"

definition getSkillRoot :: "world \<Rightarrow> fpath io" where
  "getSkillRoot w =
     andThen (getProjectRoot w) (\<lambda>r. ([], Inr (joinPath r ''.claude/skills/write-clinical-notes'')))"

definition outputMap :: "(string \<times> string) list" where
  "outputMap =
     [(''generate-pdf.ts'', ''consultation-note.pdf''),
      (''generate-cda-xml.ts'', ''discharge-summary.cda.xml''),
      (''generate-xhtml.ts'', ''discharge-summary.xhtml''),
      (''generate-html.ts'', ''progress-note.html''),
      (''generate-large-file.ts'', ''large-note.txt'')]"

definition existsAfter :: "world \<Rightarrow> (fpath \<times> utext) list \<Rightarrow> fpath \<Rightarrow> bool" where
  "existsAfter w written p = (map_of written p \<noteq> None \<or> existsSync w p)"

definition readAfter :: "world \<Rightarrow> (fpath \<times> utext) list \<Rightarrow> fpath \<Rightarrow> utext option" where
  "readAfter w written p = (case map_of written p of Some t \<Rightarrow> Some t | None \<Rightarrow> readFileSync w p)"

text \<open>
  \<open>Buffer.from(replaceContentPlaceholders(contentText, options), 'utf-8')\<close>, the content
  both sources hand back.
\<close>

definition contentBytes :: "world \<Rightarrow> utext \<Rightarrow> LocalizationOptions \<Rightarrow> bytes" where
  "contentBytes w contentText options = utf8 (replaceContentPlaceholders w contentText options)"

text \<open>The body of the \<open>try\<close> in \<open>generateContent\<close>, after \<open>process.chdir(tempDir)\<close>.\<close>

definition generateInTemp ::
  "world \<Rightarrow> fpath \<Rightarrow> fpath \<Rightarrow> string \<Rightarrow> LocalizationOptions \<Rightarrow> (bytes \<times> string) io" where
  "generateInTemp w tempDir generatorPath generator options =
     (case importModule w generatorPath of
        None \<Rightarrow> ([Import generatorPath], Inl (ImportFailed generatorPath))
      | Some written \<Rightarrow>
         (case lookupKey outputMap generator of
            Missing \<Rightarrow> ([Import generatorPath], Inl (Error (''Unknown generator: '' @ generator)))
          | Inherited \<Rightarrow> ([Import generatorPath], Inl TypeError)
          | Own filename \<Rightarrow>
             (let contentPath = joinPath tempDir filename in
              if \<not> existsAfter w written contentPath then
                ([Import generatorPath, Exists contentPath],
                 Inl (Error (''Generator did not create expected file: '' @ filename)))
              else
                (case readAfter w written contentPath of
                   None \<Rightarrow>
                     ([Import generatorPath, Exists contentPath, ReadFile contentPath],
                      Inl (IOError contentPath))
                 | Some contentText \<Rightarrow>
                     ([Import generatorPath, Exists contentPath, ReadFile contentPath],
                      Inr (contentBytes w contentText options, filename))))))"

text \<open>\<open>generateContent\<close> once the skill root is known; \<open>finally\<close> restores the directory.\<close>

definition generateAt ::
  "world \<Rightarrow> fpath \<Rightarrow> string \<Rightarrow> LocalizationOptions \<Rightarrow> (bytes \<times> string) io" where
  "generateAt w skillRoot generator options =
     (let tempDir = joinPath skillRoot ''assets/sample-content'';
          generatorPath = joinPath tempDir generator
      in if \<not> existsSync w generatorPath then
           ([Exists generatorPath],
            Inl (Error (''Generator not found: '' @ pathString generatorPath)))
         else
           (case generateInTemp w tempDir generatorPath generator options of
              (evs, r) \<Rightarrow> (Exists generatorPath # Chdir tempDir # evs @ [Chdir (cwd w)], r)))"

definition generateContent :: "world \<Rightarrow> string \<Rightarrow> LocalizationOptions \<Rightarrow> (bytes \<times> string) io" where
  "generateContent w generator options =
     andThen (getSkillRoot w) (\<lambda>skillRoot. generateAt w skillRoot generator options)"

text \<open>\<open>getContentFile\<close> once the skill root is known.\<close>

definition contentFileAt ::
  "world \<Rightarrow> fpath \<Rightarrow> string \<Rightarrow> LocalizationOptions \<Rightarrow> (bytes \<times> string) io" where
  "contentFileAt w skillRoot filename options =
     (let contentPath = joinPath (joinPath skillRoot ''assets/sample-content'') filename
      in if \<not> existsSync w contentPath then
           ([Exists contentPath],
            Inl (Error (''Content file not found: '' @ pathString contentPath)))
         else
           (case readFileSync w contentPath of
              None \<Rightarrow> ([Exists contentPath, ReadFile contentPath], Inl (IOError contentPath))
            | Some contentText \<Rightarrow>
                ([Exists contentPath, ReadFile contentPath],
                 Inr (contentBytes w contentText options, filename))))"

definition getContentFile :: "world \<Rightarrow> string \<Rightarrow> LocalizationOptions \<Rightarrow> (bytes \<times> string) io" where
  "getContentFile w filename options =
     andThen (getSkillRoot w) (\<lambda>skillRoot. contentFileAt w skillRoot filename options)"


subsection \<open>\<open>localizeTemplate\<close>\<close>

text \<open>
  The text of the template after every \<open>replace\<close>, before \<open>JSON.parse\<close>: the
  replacements up to the period, those of the content, and the two of the encounter.
\<close>

definition substituteHead :: "world \<Rightarrow> utext \<Rightarrow> LocalizationOptions \<Rightarrow> utext" where
  "substituteHead w templateContent options =
     (sub ''PERIOD_END'' (nowISO w)
     (sub ''PERIOD_START'' (nowISO w)
     (sub ''CURRENT_TIMESTAMP'' (nowISO w)
     (sub ''AUTHOR_DISPLAY'' (or_default (authorDisplay options) ''Dr. Example Provider'')
     (sub ''AUTHOR_REFERENCE'' (or_default (authorReference options) ''Practitioner/example'')
     (sub ''PATIENT_NAME'' (or_default (patientName options) ''Test Patient'')
     (sub ''PATIENT_ID'' (patientId options)
     (sub ''IDENTIFIER_VALUE'' (type options @ ''-'' @ showNat (nowMs w))
     (sub ''IDENTIFIER_SYSTEM''
        (or_default (identifierSystem options) ''https://example.com/fhir-test'')
        templateContent)))))))))"

definition substituteCommon ::
  "world \<Rightarrow> utext \<Rightarrow> LocalizationOptions \<Rightarrow> string \<Rightarrow> nat \<Rightarrow> string \<Rightarrow> utext" where
  "substituteCommon w templateContent options base64Content contentSize ctype =
     (sub ''APP_NAME'' ''FHIR Test App''
     (sub ''CONTENT_SIZE'' (showNat contentSize)
     (sub ''BASE64_CONTENT'' base64Content
     (sub ''CONTENT_TYPE'' ctype
     (substituteHead w templateContent options)))))"

definition substituteTemplate ::
  "world \<Rightarrow> utext \<Rightarrow> LocalizationOptions \<Rightarrow> string \<Rightarrow> nat \<Rightarrow> string \<Rightarrow> utext" where
  "substituteTemplate w templateContent options base64Content contentSize ctype =
     (let localized = substituteCommon w templateContent options base64Content contentSize ctype
      in if truthy_str (encounterReference options) then
           sub ''ENCOUNTER_DISPLAY'' (or_default (encounterDisplay options) ''Encounter'')
             (sub ''ENCOUNTER_REFERENCE'' (the (encounterReference options)) localized)
         else sub ''ENCOUNTER_DISPLAY'' [] (sub ''ENCOUNTER_REFERENCE'' [] localized))"

text \<open>
  Property reads on a parsed value. \<open>undefined\<close> is \<open>None\<close>; reading a property of
  \<open>null\<close> throws; a value that is not an object has none of the properties read here.
\<close>

definition truthy_opt :: "json option \<Rightarrow> bool" where
  "truthy_opt v = (case v of None \<Rightarrow> False | Some j \<Rightarrow> truthy j)"

fun getProp :: "json \<Rightarrow> string \<Rightarrow> error + json option" where
  "getProp JNull k = Inl TypeError"
| "getProp (JObject kvs) k = Inr (map_of kvs k)"
| "getProp v k = Inr None"

text \<open>\<open>enc.reference && enc.reference.trim() !== ''\<close>.\<close>

definition validReference :: "json \<Rightarrow> error + bool" where
  "validReference enc =
     (case getProp enc ''reference'' of
        Inl e \<Rightarrow> Inl e
      | Inr r \<Rightarrow>
         if \<not> truthy_opt r then Inr False
         else (case r of Some (JString s) \<Rightarrow> Inr (trim s \<noteq> []) | _ \<Rightarrow> Inl TypeError))"

text \<open>\<open>Array.prototype.some\<close>: stops at the first entry that passes.\<close>

fun someValid :: "json list \<Rightarrow> error + bool" where
  "someValid [] = Inr False"
| "someValid (e # es) =
     (case validReference e of
        Inl err \<Rightarrow> Inl err
      | Inr True \<Rightarrow> Inr True
      | Inr False \<Rightarrow> someValid es)"

text \<open>\<open>parsed.context?.encounter\<close>.\<close>

definition contextEncounter :: "json \<Rightarrow> error + json option" where
  "contextEncounter parsed =
     (case getProp parsed ''context'' of
        Inl e \<Rightarrow> Inl e
      | Inr None \<Rightarrow> Inr None
      | Inr (Some JNull) \<Rightarrow> Inr None
      | Inr (Some c) \<Rightarrow> getProp c ''encounter'')"

text \<open>\<open>delete parsed.context.encounter\<close>.\<close>

definition deleteEncounter :: "json \<Rightarrow> json" where
  "deleteEncounter parsed =
     (case parsed of
        JObject kvs \<Rightarrow>
          (case map_of kvs ''context'' of
             Some (JObject c) \<Rightarrow>
               JObject (AList.update ''context'' (JObject (AList.delete ''encounter'' c)) kvs)
           | _ \<Rightarrow> parsed)
      | _ \<Rightarrow> parsed)"

definition dropEmptyEncounter :: "LocalizationOptions \<Rightarrow> json \<Rightarrow> error + json" where
  "dropEmptyEncounter options parsed =
     (if truthy_str (encounterReference options) then Inr parsed
      else (case contextEncounter parsed of
              Inl e \<Rightarrow> Inl e
            | Inr enc \<Rightarrow>
               if \<not> truthy_opt enc then Inr parsed
               else (case enc of
                       Some (JArray es) \<Rightarrow>
                         (case someValid es of
                            Inl e \<Rightarrow> Inl e
                          | Inr True \<Rightarrow> Inr parsed
                          | Inr False \<Rightarrow> Inr (deleteEncounter parsed))
                     | _ \<Rightarrow> Inl TypeError)))"

text \<open>
  \<open>if (!parsed.contained) parsed.contained = []; parsed.contained.push(v)\<close>. The module is
  strict code: creating a property on a number, a string or a boolean throws. An array takes
  the property, but \<open>JSON.stringify\<close> writes the elements of an array only.
\<close>

definition pushContained :: "json \<Rightarrow> json \<Rightarrow> error + json" where
  "pushContained v parsed =
     (case parsed of
        JNull \<Rightarrow> Inl TypeError
      | JObject kvs \<Rightarrow>
          (if \<not> truthy_opt (map_of kvs ''contained'') then
             Inr (JObject (AList.update ''contained'' (JArray [v]) kvs))
           else (case map_of kvs ''contained'' of
                   Some (JArray xs) \<Rightarrow>
                     Inr (JObject (AList.update ''contained'' (JArray (xs @ [v])) kvs))
                 | _ \<Rightarrow> Inl TypeError))
      | JArray xs \<Rightarrow> Inr (JArray xs)
      | _ \<Rightarrow> Inl TypeError)"

text \<open>
  \<open>if (options.encounterContained)\<close>: a falsy option adds nothing; a string, whoever passes
  it, goes through \<open>JSON.parse\<close>; any other value is taken as it is.
\<close>

definition addContained :: "world \<Rightarrow> LocalizationOptions \<Rightarrow> json \<Rightarrow> error + json" where
  "addContained w options parsed =
     (if \<not> truthy_opt (encounterContained options) then Inr parsed
      else (case encounterContained options of
              Some (JString s) \<Rightarrow>
                (case jsonParse w (wide s) of
                   None \<Rightarrow>
                     Inl (Error (''Invalid JSON in --encounter-contained: ''
                                 @ parseMessage w (wide s)))
                 | Some v \<Rightarrow> pushContained v parsed)
            | Some v \<Rightarrow> pushContained v parsed
            | None \<Rightarrow> Inr parsed))"

text \<open>
  \<open>localizeTemplate\<close> returns \<open>JSON.stringify(parsed, null, 2)\<close>; the model returns the
  value that text denotes, which is also what \<open>JSON.parse\<close> makes of it again.
\<close>

definition localizeTemplate ::
  "world \<Rightarrow> utext \<Rightarrow> LocalizationOptions \<Rightarrow> string \<Rightarrow> nat \<Rightarrow> string \<Rightarrow> error + json" where
  "localizeTemplate w templateContent options base64Content contentSize ctype =
     (case jsonParse w (substituteTemplate w templateContent options base64Content contentSize ctype) of
        None \<Rightarrow> Inl SyntaxError
      | Some parsed \<Rightarrow>
         (case dropEmptyEncounter options parsed of
            Inl e \<Rightarrow> Inl e
          | Inr parsed' \<Rightarrow> addContained w options parsed'))"

text \<open>Reading a document: a field of an object, \<open>context.encounter\<close>, the entries of \<open>contained\<close>.\<close>

definition fieldOf :: "json \<Rightarrow> string \<Rightarrow> json option" where
  "fieldOf j k = (case j of JObject kvs \<Rightarrow> map_of kvs k | _ \<Rightarrow> None)"



subsection \<open>\<open>localizeDocumentReference\<close> and \<open>main\<close>\<close>

definition contentFor :: "world \<Rightarrow> TemplateMapping \<Rightarrow> LocalizationOptions \<Rightarrow> (bytes \<times> string) io" where
  "contentFor w mapping options =
     (if truthy_str (contentGenerator mapping) then
        generateContent w (the (contentGenerator mapping)) options
      else if truthy_str (contentFile mapping) then
        getContentFile w (the (contentFile mapping)) options
      else ([], Inl (Error ''No content source specified in mapping'')))"

definition outputDirFor :: "world \<Rightarrow> fpath \<Rightarrow> LocalizationOptions \<Rightarrow> fpath" where
  "outputDirFor w projectRoot options =
     (if truthy_str (outputDir options) then resolvePath (cwd w) (the (outputDir options))
      else resolvePath (joinPath projectRoot ''localized'') (server options))"

text \<open>From the content to the written file: the same statements in the API and in \<open>main\<close>.\<close>

text \<open>
  \<open>localizeDocumentReference\<close> from the base64 encoding on, with the content data in
  hand: encode, read the template, localize, parse, write unless \<open>writeToFile\<close> is
  \<open>false\<close>.
\<close>

definition localizeContent ::
  "world \<Rightarrow> fpath \<Rightarrow> fpath \<Rightarrow> TemplateMapping \<Rightarrow> LocalizationOptions \<Rightarrow> bytes \<times> string
     \<Rightarrow> json io" where
  "localizeContent w projectRoot skillRoot mapping options contentData =
     (let base64Content = base64 (fst contentData);
          contentSize = length (fst contentData);
          templatePath = joinPath (joinPath skillRoot ''assets/templates'') (template mapping)
      in case readFileSync w templatePath of
           None \<Rightarrow> ([ReadFile templatePath], Inl (IOError templatePath))
         | Some templateContent \<Rightarrow>
            (case localizeTemplate w templateContent options base64Content contentSize
                    (contentType mapping) of
               Inl e \<Rightarrow> ([ReadFile templatePath], Inl e)
             | Inr doc \<Rightarrow>
                if writeToFile options \<noteq> Some False then
                  (let outputDir = outputDirFor w projectRoot options;
                       outputPath = joinPath outputDir (type options @ ''-note.json'')
                   in if \<not> mkdirSync w outputDir then
                        ([ReadFile templatePath], Inl (IOError outputDir))
                      else if \<not> overwritable w outputPath then
                        ([ReadFile templatePath, Mkdir outputDir], Inl (IOError outputPath))
                      else
                        ([ReadFile templatePath, Mkdir outputDir,
                          WriteFile outputPath (JsonText doc)],
                         Inr doc))
                else ([ReadFile templatePath], Inr doc)))"

definition localizeWith ::
  "world \<Rightarrow> fpath \<Rightarrow> fpath \<Rightarrow> TemplateMapping \<Rightarrow> LocalizationOptions \<Rightarrow> json io" where
  "localizeWith w projectRoot skillRoot mapping options =
     andThen (contentFor w mapping options)
       (\<lambda>contentData. localizeContent w projectRoot skillRoot mapping options contentData)"

definition unknownTypeMessage :: "string \<Rightarrow> string" where
  "unknownTypeMessage t =
     ''Unknown document type: '' @ t @ ''. Available: '' @ joinWith '', '' (map fst TEMPLATE_MAPPINGS)"

text \<open>
  \<open>localizeDocumentReference\<close> from the table lookup on, both roots being known by
  then.
\<close>

definition localizeMapped :: "world \<Rightarrow> LocalizationOptions \<Rightarrow> fpath \<Rightarrow> fpath \<Rightarrow> json io" where
  "localizeMapped w options projectRoot skillRoot =
     (case lookupKey TEMPLATE_MAPPINGS (type options) of
        Missing \<Rightarrow> ([], Inl (Error (unknownTypeMessage (type options))))
      | Inherited \<Rightarrow> ([], Inl (Error ''No content source specified in mapping''))
      | Own mapping \<Rightarrow> localizeWith w projectRoot skillRoot mapping options)"

definition localizeDocumentReference :: "world \<Rightarrow> LocalizationOptions \<Rightarrow> json io" where
  "localizeDocumentReference w options =
     andThen (getProjectRoot w) (\<lambda>projectRoot.
     andThen (getSkillRoot w) (\<lambda>skillRoot. localizeMapped w options projectRoot skillRoot))"

record CliValues =
  v_type :: "string option"
  v_patient_id :: "string option"
  v_patient_name :: "string option"
  v_author_reference :: "string option"
  v_author_display :: "string option"
  v_encounter_reference :: "string option"
  v_encounter_display :: "string option"
  v_encounter_contained :: "string option"
  v_identifier_system :: "string option"
  v_server :: "string option"
  v_output_dir :: "string option"
  v_help :: bool

definition optionsOf :: "CliValues \<Rightarrow> LocalizationOptions" where
  "optionsOf v =
     \<lparr>type = the (v_type v), patientId = the (v_patient_id v),
      patientName = v_patient_name v, authorReference = v_author_reference v,
      authorDisplay = v_author_display v, encounterReference = v_encounter_reference v,
      encounterDisplay = v_encounter_display v,
      encounterContained = map_option JString (v_encounter_contained v),
      identifierSystem = v_identifier_system v, server = the (v_server v),
      outputDir = v_output_dir v, writeToFile = None\<rparr>"

definition main :: "world \<Rightarrow> CliValues \<Rightarrow> event list \<times> outcome" where
  "main w v =
     (if v_help v then ([], Exited 0)
      else if \<not> truthy_str (v_type v) \<or> \<not> truthy_str (v_patient_id v) \<or> \<not> truthy_str (v_server v)
      then ([ConsoleError ''Error: --type, --patient-id, and --server are required'',
             ConsoleError ''Run with --help for usage information''], Exited 1)
      else if lookupKey TEMPLATE_MAPPINGS (the (v_type v)) = Missing
      then ([ConsoleError (''Error: Unknown type '' @ dq @ the (v_type v) @ dq),
             ConsoleError (''Available types: '' @ joinWith '', '' (map fst TEMPLATE_MAPPINGS))],
            Exited 1)
      else (case localizeDocumentReference w (optionsOf v) of
              (evs, Inl e) \<Rightarrow> (evs @ [ReportError e], Exited 1)
            | (evs, Inr doc) \<Rightarrow> (evs, Returned)))"

section \<open>The older localizer (\<open>src/unnamed/part_001\<close>)\<close>

definition substituteTemplate_part_001 ::
  "world \<Rightarrow> utext \<Rightarrow> LocalizationOptions \<Rightarrow> string \<Rightarrow> nat \<Rightarrow> string \<Rightarrow> utext" where
  "substituteTemplate_part_001 w templateContent options base64Content contentSize ctype =
     (sub ''APP_NAME'' ''FHIR Test App''
     (sub ''CONTENT_SIZE'' (showNat contentSize)
     (sub ''BASE64_CONTENT'' base64Content
     (sub ''CONTENT_TYPE'' ctype
     (sub ''PERIOD_END'' ''2025-01-15T09:00:00Z''
     (sub ''PERIOD_START'' ''2025-01-15T08:00:00Z''
     (sub ''CURRENT_TIMESTAMP'' (nowISO w)
     (sub ''ENCOUNTER_END'' ''2025-01-15T09:00:00Z''
     (sub ''ENCOUNTER_START'' ''2025-01-15T08:00:00Z''
     (sub ''ENCOUNTER_IDENTIFIER_VALUE'' (''enc-'' @ showNat (nowMs w))
     (sub ''ENCOUNTER_IDENTIFIER_SYSTEM''
        (or_default (identifierSystem options) ''https://example.com/fhir-test'' @ ''/encounters'')
     (sub ''ENCOUNTER_DISPLAY'' (or_default (encounterDisplay options) ''Office Visit'')
     (sub ''ENCOUNTER_REFERENCE'' (or_default (encounterReference options) ''#e1'')
     (sub ''AUTHOR_DISPLAY'' (or_default (authorDisplay options) ''Dr. Example Provider'')
     (sub ''AUTHOR_REFERENCE'' (or_default (authorReference options) ''Practitioner/example'')
     (sub ''PATIENT_NAME'' (or_default (patientName options) ''Test Patient'')
     (sub ''PATIENT_ID'' (patientId options)
     (sub ''IDENTIFIER_VALUE'' (type options @ ''-'' @ showNat (nowMs w))
     (sub ''IDENTIFIER_SYSTEM''
        (or_default (identifierSystem options) ''https://example.com/fhir-test'')
        templateContent)))))))))))))))))))"

definition e1Encounter :: "string \<Rightarrow> json" where
  "e1Encounter pid =
     JObject
       [(''resourceType'', JString ''Encounter''),
        (''id'', JString ''e1''),
        (''status'', JString ''finished''),
        (''class'', JObject
           [(''system'', JString ''http://terminology.hl7.org/CodeSystem/v3-ActCode''),
            (''code'', JString ''AMB'')]),
        (''subject'', JObject [(''reference'', JString (''Patient/'' @ pid))]),
        (''period'', JObject
           [(''start'', JString ''2025-01-15T08:00:00Z''),
            (''end'', JString ''2025-01-15T09:00:00Z'')])]"

text \<open>\<open>if (encounterReference === '#e1' && !parsed.contained) parsed.contained = [...]\<close>.\<close>

definition synthesizeContained :: "LocalizationOptions \<Rightarrow> json \<Rightarrow> error + json" where
  "synthesizeContained options parsed =
     (if or_default (encounterReference options) ''#e1'' \<noteq> ''#e1'' then Inr parsed
      else (case parsed of
              JNull \<Rightarrow> Inl TypeError
            | JObject kvs \<Rightarrow>
                (if truthy_opt (map_of kvs ''contained'') then Inr parsed
                 else Inr (JObject
                        (AList.update ''contained'' (JArray [e1Encounter (patientId options)]) kvs)))
            | JArray xs \<Rightarrow> Inr (JArray xs)
            | _ \<Rightarrow> Inl TypeError))"

definition localizeTemplate_part_001 ::
  "world \<Rightarrow> utext \<Rightarrow> LocalizationOptions \<Rightarrow> string \<Rightarrow> nat \<Rightarrow> string \<Rightarrow> error + json" where
  "localizeTemplate_part_001 w templateContent options base64Content contentSize ctype =
     (case jsonParse w
             (substituteTemplate_part_001 w templateContent options base64Content contentSize ctype) of
        None \<Rightarrow> Inl SyntaxError
      | Some parsed \<Rightarrow> synthesizeContained options parsed)"

section \<open>Example runs\<close>

text \<open>Concrete worlds and requests, used to run the definitions.\<close>

definition cfgA :: FHIRConfig where
  "cfgA = \<lparr>name = ''a'', fhirBaseUrl = ''http://a.example/fhir'', accessToken = None, mode = ''open''\<rparr>"

definition cfgB :: FHIRConfig where
  "cfgB = \<lparr>name = ''b'', fhirBaseUrl = ''http://b.example/fhir'', accessToken = Some ''tok'',
           mode = ''smart''\<rparr>"

definition cfgC :: FHIRConfig where
  "cfgC = \<lparr>name = ''c'', fhirBaseUrl = ''http://c.example/fhir'', accessToken = None,
           mode = ''smart''\<rparr>"

definition txtA :: utext where
  \<open>txtA = wide ''{"name":"a","fhirBaseUrl":"http://a.example/fhir","mode":"open"}''\<close>

definition txtB :: utext where
  \<open>txtB = wide ''{"name":"b","fhirBaseUrl":"http://b.example/fhir","accessToken":"tok","mode":"smart"}''\<close>

definition txtC :: utext where
  \<open>txtC = wide ''{"name":"c","fhirBaseUrl":"http://c.example/fhir","mode":"smart"}''\<close>

definition notFound :: http_response where
  "notFound = \<lparr>status = 404, statusText = ''Not Found'',
       resp_headers = [(''content-type'', ''text/plain'')], bodyText = wide ''no such resource''\<rparr>"

definition okEmpty :: http_response where
  "okEmpty = \<lparr>status = 200, statusText = ''OK'', resp_headers = [], bodyText = []\<rparr>"

definition bodyTxt :: utext where
  \<open>bodyTxt = wide ''{"resourceType":"DocumentReference","status":"current"}''\<close>

definition bodyJson :: json where
  "bodyJson = JObject [(''resourceType'', JString ''DocumentReference''), (''status'', JString ''current'')]"

definition world0 :: world where
  "world0 =
     \<lparr>cwd = [''proj'', ''req''],
      nodes = [([''proj''], Dir 0), ([''proj'', ''req''], Dir 0),
               ([''proj'', ''.fhir-configs''], Dir 0)],
      denied = (\<lambda>p. False),
      jsonParse = (\<lambda>t. if t = bodyTxt then Some bodyJson else None),
      parseMessage = (\<lambda>t. ''JSON Parse error''),
      parseConfig = (\<lambda>t. if t = txtA then Some cfgA else if t = txtB then Some cfgB
                          else if t = txtC then Some cfgC else None),
      fetch = (\<lambda>r. if url r = ''http://a.example/fhir/Patient/none'' then Some notFound
                    else Some okEmpty),
      importModule = (\<lambda>p. None),
      nowMs = 1000, nowISO = ''2025-01-15T14:30:00.000Z'',
      nowTimeString = ''14:30:00 GMT+0000 (Coordinated Universal Time)'',
      responseMs = 1250, responseISO = ''2025-01-15T14:30:00.250Z''\<rparr>"

definition world_one :: world where
  "world_one = world0\<lparr>nodes :=
     [([''proj''], Dir 0), ([''proj'', ''req''], Dir 0),
      ([''proj'', ''.fhir-configs''], Dir 0),
      ([''proj'', ''.fhir-configs'', ''a.json''], File txtA 10)]\<rparr>"

definition world_two :: world where
  "world_two = world0\<lparr>nodes :=
     [([''proj''], Dir 0), ([''proj'', ''req''], Dir 0), ([''proj'', ''out''], Dir 0),
      ([''proj'', ''.fhir-configs''], Dir 0),
      ([''proj'', ''.fhir-configs'', ''a.json''], File txtA 10),
      ([''proj'', ''.fhir-configs'', ''b.json''], File txtB 20),
      ([''proj'', ''localized'', ''smart'', ''consultation-note.json''], File bodyTxt 30)]\<rparr>"

definition world_c :: world where
  "world_c = world0\<lparr>nodes :=
     [([''proj''], Dir 0), ([''proj'', ''req''], Dir 0),
      ([''proj'', ''.fhir-configs''], Dir 0),
      ([''proj'', ''.fhir-configs'', ''c.json''], File txtC 10)]\<rparr>"

text \<open>A project in which \<open>.fhir-configs\<close> is a regular file.\<close>

definition world_file :: world where
  "world_file = world0\<lparr>nodes :=
     [([''proj''], Dir 0), ([''proj'', ''req''], Dir 0),
      ([''proj'', ''.fhir-configs''], File [] 0)]\<rparr>"

definition spec_get :: RequestSpec where
  "spec_get = \<lparr>httpMethod = ''GET'', path = ''/metadata'', bodyFile = None, headers = None,
     purpose = ''capabilities'', configName = None, callerDir = None\<rparr>"

definition spec_missing :: RequestSpec where
  "spec_missing = spec_get\<lparr>path := ''/Patient/none''\<rparr>"

definition spec_gone :: RequestSpec where
  "spec_gone = spec_missing\<lparr>callerDir := Some ''/proj/gone''\<rparr>"

definition spec_html :: RequestSpec where
  "spec_html = spec_get\<lparr>headers := Some [(''Accept'', ''text/html'')]\<rparr>"

definition spec_post :: RequestSpec where
  "spec_post = \<lparr>httpMethod = ''POST'', path = ''/DocumentReference'',
     bodyFile = Some ''localized/smart/consultation-note.json'',
     headers = Some [(''Prefer'', ''return=representation'')],
     purpose = ''create note'', configName = Some ''b'', callerDir = Some ''/proj/out''\<rparr>"

definition spec_basic :: RequestSpec where
  "spec_basic = spec_get\<lparr>headers := Some [(''Authorization'', ''Basic dXNlcjpwdw=='')]\<rparr>"

definition req_post :: http_request where
  "req_post = \<lparr>url = ''http://b.example/fhir/DocumentReference'', req_method = ''POST'',
       req_headers = [(''Accept'', ''application/fhir+json''), (''Prefer'', ''return=representation''),
                      (''Authorization'', ''Bearer tok''), (''Content-Type'', ''application/fhir+json'')],
       req_body = Some bodyJson\<rparr>"

definition req_get_c :: http_request where
  "req_get_c = \<lparr>url = ''http://c.example/fhir/metadata'', req_method = ''GET'',
       req_headers = [(''Accept'', ''application/fhir+json'')], req_body = None\<rparr>"

definition req_missing :: http_request where
  "req_missing = \<lparr>url = ''http://a.example/fhir/Patient/none'', req_method = ''GET'',
       req_headers = [(''Accept'', ''application/fhir+json'')], req_body = None\<rparr>"

definition opts0 :: LocalizationOptions where
  "opts0 = \<lparr>type = ''consultation'', patientId = ''patient-123'', patientName = None,
     authorReference = None, authorDisplay = None, encounterReference = None,
     encounterDisplay = None, encounterContained = None, identifierSystem = None,
     server = ''smart'', outputDir = None, writeToFile = Some False\<rparr>"

definition opts_names :: LocalizationOptions where
  "opts_names = opts0\<lparr>patientName := Some ''Jane Doe'', authorDisplay := Some ''Dr. Alice Smith MD''\<rparr>"

definition opts_cher :: LocalizationOptions where
  "opts_cher = opts0\<lparr>patientName := Some ''Cher''\<rparr>"

text \<open>
  Templates and the texts they become, each with the value \<open>JSON.parse\<close> gives for it;
  \<open>world_doc\<close> parses exactly these texts.
\<close>

definition tplPlain :: utext where
  \<open>tplPlain = wide ''{"resourceType":"DocumentReference"}''\<close>

definition tplContained :: utext where
  \<open>tplContained = wide ''{"resourceType":"DocumentReference","contained":[{"resourceType":"Practitioner","id":"p1"}]}''\<close>

definition tplNullContained :: utext where
  \<open>tplNullContained = wide ''{"resourceType":"DocumentReference","contained":null}''\<close>

definition tplArray :: utext where
  "tplArray = wide ''[]''"

definition containedTxt :: string where
  \<open>containedTxt = ''{"resourceType":"Encounter","id":"e1"}''\<close>

definition tplEnc :: utext where
  \<open>tplEnc = wide ''{"context":{"encounter":[{"reference":"{{ENCOUNTER_REFERENCE}}"}]}}''\<close>

definition txtEncEmpty :: utext where
  \<open>txtEncEmpty = wide ''{"context":{"encounter":[{"reference":""}]}}''\<close>

definition txtEncVisit :: utext where
  \<open>txtEncVisit = wide ''{"context":{"encounter":[{"reference":"Encounter/visit-789"}]}}''\<close>

definition txtEncDollar :: utext where
  \<open>txtEncDollar = wide ''{"context":{"encounter":[{"reference":"Encounter/{{ENCOUNTER_REFERENCE}}"}]}}''\<close>

definition encDoc :: "string \<Rightarrow> json" where
  "encDoc r = JObject [(''context'', JObject [(''encounter'', JArray [JObject [(''reference'', JString r)]])])]"

definition practitionerP1 :: json where
  "practitionerP1 = JObject [(''resourceType'', JString ''Practitioner''), (''id'', JString ''p1'')]"

definition encounterE1 :: json where
  "encounterE1 = JObject [(''resourceType'', JString ''Encounter''), (''id'', JString ''e1'')]"

definition parseTable :: "(utext \<times> json) list" where
  "parseTable =
     [(tplPlain, JObject [(''resourceType'', JString ''DocumentReference'')]),
      (tplContained,
       JObject [(''resourceType'', JString ''DocumentReference''),
                (''contained'', JArray [practitionerP1])]),
      (tplNullContained,
       JObject [(''resourceType'', JString ''DocumentReference''), (''contained'', JNull)]),
      (tplArray, JArray []),
      (wide containedTxt, encounterE1),
      (txtEncEmpty, encDoc []),
      (txtEncVisit, encDoc ''Encounter/visit-789''),
      (txtEncDollar, encDoc ''Encounter/{{ENCOUNTER_REFERENCE}}'')]"

definition world_doc :: world where
  "world_doc = world0\<lparr>jsonParse := map_of parseTable\<rparr>"

definition opts_contained :: LocalizationOptions where
  "opts_contained = opts0\<lparr>encounterReference := Some ''#e1'',
     encounterContained := Some (JString containedTxt)\<rparr>"

definition opts_emptyContained :: LocalizationOptions where
  "opts_emptyContained = opts0\<lparr>encounterReference := Some ''#e1'',
     encounterContained := Some (JString [])\<rparr>"

definition opts_visit :: LocalizationOptions where
  "opts_visit = opts0\<lparr>encounterReference := Some ''Encounter/visit-789''\<rparr>"

definition opts_dollar :: LocalizationOptions where
  "opts_dollar = opts0\<lparr>encounterReference := Some ''Encounter/$&''\<rparr>"

definition opts_badContained :: LocalizationOptions where
  "opts_badContained = opts0\<lparr>encounterReference := Some ''#e1'',
     encounterContained := Some (JString ''{resourceType:Encounter}'')\<rparr>"

text \<open>A project with the skill installed, one content file and one template.\<close>

text \<open>The content holds a subscript two, a code point of three bytes.\<close>

definition contentTxt :: utext where
  "contentTxt = wide ''Patient: {{PATIENT_NAME}}, SpO'' @ [0x2082] @ wide '' 97%''"

definition tplNote :: utext where
  \<open>tplNote = wide ''{"subject":{"display":"{{PATIENT_NAME}}"},"content":[{"attachment":{"contentType":"{{CONTENT_TYPE}}","data":"{{BASE64_CONTENT}}","size":{{CONTENT_SIZE}}}}]}''\<close>

definition txtNote :: utext where
  \<open>txtNote = wide ''{"subject":{"display":"Test Patient"},"content":[{"attachment":{"contentType":"text/plain; charset=utf-8","data":"UGF0aWVudDogVGVzdCBQYXRpZW50LCBTcE/igoIgOTcl","size":33}}]}''\<close>


definition noteDoc :: json where
  "noteDoc =
     JObject
       [(''subject'', JObject [(''display'', JString ''Test Patient'')]),
        (''content'', JArray [JObject [(''attachment'', JObject
           [(''contentType'', JString ''text/plain; charset=utf-8''),
            (''data'', JString ''UGF0aWVudDogVGVzdCBQYXRpZW50LCBTcE/igoIgOTcl''),
            (''size'', JNumber 33)])]])]"

definition skillDir :: fpath where
  "skillDir = [''proj'', ''.claude'', ''skills'', ''write-clinical-notes'']"

definition world_loc :: world where
  "world_loc = world0\<lparr>
     cwd := [''proj''],
     nodes := [([''proj''], Dir 0), ([''proj'', ''.fhir-configs''], Dir 0),
               (skillDir @ [''assets'', ''sample-content'', ''consultation-note.txt''], File contentTxt 1),
               (skillDir @ [''assets'', ''templates'', ''consultation-note.json''], File tplNote 1),
               (skillDir @ [''assets'', ''sample-content'', ''progress-note.txt''], File contentTxt 1),
               (skillDir @ [''assets'', ''templates'', ''progress-note.json''], File tplPlain 1)],
     jsonParse := map_of [(txtNote, noteDoc),
                          (tplPlain, JObject [(''resourceType'', JString ''DocumentReference'')])]\<rparr>"

definition world_noroot :: world where
  "world_noroot = world_loc\<lparr>cwd := [''tmp'']\<rparr>"





definition opts_unknown :: LocalizationOptions where
  "opts_unknown = opts0\<lparr>type := ''unknown-format''\<rparr>"

definition cli_unknown :: CliValues where
  "cli_unknown = \<lparr>v_type = Some ''unknown-format'', v_patient_id = Some ''patient-123'',
     v_patient_name = None, v_author_reference = None, v_author_display = None,
     v_encounter_reference = None, v_encounter_display = None, v_encounter_contained = None,
     v_identifier_system = None, v_server = Some ''smart'', v_output_dir = None, v_help = False\<rparr>"

section \<open>Theorems: the request executor\<close>

lemmas example_defs = cfgA_def cfgB_def cfgC_def txtA_def txtB_def txtC_def notFound_def okEmpty_def
  world0_def world_one_def world_two_def world_c_def world_file_def spec_get_def spec_missing_def
  spec_html_def spec_basic_def spec_post_def spec_gone_def bodyTxt_def bodyJson_def wide_def

lemmas exec_defs = execute_def execute_part_002_def execute_with_def findProjectRoot_def existsSync_def
  loadConfig_def loadConfig_part_002_def truthy_str_def joinPath_def resolvePath_def byRecency_def configFiles_def
  readdirSync_def isDirectory_def writable_def overwritable_def endsWith_def mtime_def readConfig_def
  readFileSync_def sendRequest_def buildRequest_def baseHeaders_def spread_def handleResponse_def
  responseExt_def responseContent_def responseMetadata_def outputDirOf_def loadBody_def isAbsolute_def
  nl_def Let_def



lemma map_of_spread:
  "map_of (spread src dst) k = (case map_of (rev src) k of Some v \<Rightarrow> Some v | None \<Rightarrow> map_of dst k)"
proof (induction src arbitrary: dst)
  case Nil
  show ?case by (simp add: spread_def)
next
  case (Cons x xs)
  obtain a b where x: "x = (a, b)" by (cases x)
  have "spread (x # xs) dst = spread xs (AList.update a b dst)"
    by (simp add: spread_def x)
  then show ?case
    using Cons.IH [of "AList.update a b dst"]
    by (auto simp: x update_conv' map_add_def split: option.splits)
qed

lemma baseHeaders_lookup:
  "map_of (baseHeaders cfg spec) k =
     (if k = ''Authorization'' \<and> truthy_str (accessToken cfg) \<and> mode cfg \<noteq> ''open''
      then Some (''Bearer '' @ the (accessToken cfg))
      else (case callerHeader spec k of
              Some v \<Rightarrow> Some v
            | None \<Rightarrow> if k = ''Accept'' then Some ''application/fhir+json'' else None))"
  by (simp add: baseHeaders_def Let_def map_of_spread callerHeader_def update_conv' split: option.splits)

lemma buildRequest_headers:
  assumes "buildRequest w root cfg spec = Inr req"
  shows "map_of (req_headers req) k =
     (if k = ''Content-Type'' \<and> truthy_str (bodyFile spec) then Some ''application/fhir+json''
      else map_of (baseHeaders cfg spec) k)"
  using assms
  by (auto simp: buildRequest_def Let_def update_conv' split: if_splits sum.splits)

lemma handleResponse_events: "Fetch req \<notin> set (fst (handleResponse w spec r))"
  by (simp add: handleResponse_def Let_def)

lemma fetch_event_origin:
  assumes "Fetch req \<in> set (fst (execute_with load w spec))"
  shows "\<exists>root cfg. findProjectRoot w = Inr root \<and> load w root (configName spec) = Inr cfg
           \<and> buildRequest w root cfg spec = Inr req"
proof -
  obtain root where root: "findProjectRoot w = Inr root"
    using assms by (cases "findProjectRoot w") (auto simp: execute_with_def)
  obtain cfg where cfg: "load w root (configName spec) = Inr cfg"
    using assms root by (cases "load w root (configName spec)") (auto simp: execute_with_def)
  have s: "Fetch req \<in> set (fst (sendRequest w root cfg spec))"
    using assms root cfg by (simp add: execute_with_def)
  then obtain req' where req': "buildRequest w root cfg spec = Inr req'"
    by (cases "buildRequest w root cfg spec") (auto simp: sendRequest_def)
  have "req' = req"
  proof (cases "fetch w req'")
    case None
    then show ?thesis using s req' by (simp add: sendRequest_def)
  next
    case (Some r)
    obtain evs out where h: "handleResponse w spec r = (evs, out)"
      by (cases "handleResponse w spec r")
    have "Fetch req \<notin> set evs"
      using handleResponse_events [of req w spec r] h by simp
    then show ?thesis using s req' Some h by (simp add: sendRequest_def)
  qed
  then show ?thesis using root cfg req' by blast
qed

lemma root_cfg_of_fetch:
  assumes "findProjectRoot w = Inr root" and "load w root (configName spec) = Inr cfg"
    and "Fetch req \<in> set (fst (execute_with load w spec))"
  shows "buildRequest w root cfg spec = Inr req"
  using fetch_event_origin [OF assms(3)] assms(1,2) by auto

lemma byRecency_head:
  assumes "byRecency w d fs = p # ps"
  shows "p \<in> joinPath d ` set fs \<and> (\<forall>q \<in> joinPath d ` set fs. mtime w q \<le> mtime w p)"
proof -
  let ?xs = "map (\<lambda>f. joinPath d f) fs"
  let ?k = "\<lambda>p. - mtime w p"
  have s: "sort_key ?k ?xs = p # ps" using assms by (simp add: byRecency_def)
  have "set (sort_key ?k ?xs) = set ?xs" by simp
  then have mem: "set (p # ps) = joinPath d ` set fs" using s by simp
  have "sorted (map ?k (sort_key ?k ?xs))" by (rule sorted_sort_key)
  then have "sorted (map ?k (p # ps))" using s by simp
  then have "\<forall>q \<in> set ps. ?k p \<le> ?k q" by simp
  then have "\<forall>q \<in> set (p # ps). mtime w q \<le> mtime w p" by simp
  then show ?thesis using mem by auto
qed

lemma byRecency_Nil: "(byRecency w d fs = []) = (fs = [])"
proof -
  have "length (byRecency w d fs) = length fs"
    by (simp add: byRecency_def)
  then show ?thesis
    by (metis length_0_conv)
qed

text \<open>
  Claim C2, as the code has it. With no (or an empty) \<open>configName\<close>, both copies of
  \<open>execute\<close> list the config directory first, and the error of \<open>readdirSync\<close> leaves
  \<open>execute\<close> when the listing fails, which is so exactly when \<open>.fhir-configs\<close> is not a
  directory or may not be listed. When it succeeds, the copy of the library in
  \<open>src/unnamed/part_002\<close> throws the run-setup message when the directory has no
  \<open>.json\<close> file, uses the only file when there is exactly one, and throws a message that
  lists the names when there are two or more. The library at \<open>src/assets/lib/fhir-request.ts\<close>
  throws \<open>No FHIR config found\<close> on none and otherwise uses a file whose modification time is
  the latest, however many there are.
\<close>

theorem config_selection:
  assumes root: "findProjectRoot w = Inr root"
    and no_name: "\<not> truthy_str (configName spec)"
    and dir: "d = joinPath root ''.fhir-configs''"
  shows "(configFiles w d = None) = (\<not> isDirectory w d \<or> denied w d)
     \<and> (configFiles w d = None \<longrightarrow>
           execute_part_002 w spec = ([], Thrown (IOError d))
         \<and> execute w spec = ([], Thrown (IOError d)))
     \<and> (\<forall>fs. configFiles w d = Some fs \<longrightarrow>
           (fs = [] \<longrightarrow> execute_part_002 w spec = ([], Thrown (Error noConfigsMessage)))
         \<and> (\<forall>f. fs = [f] \<longrightarrow>
               execute_part_002 w spec =
                 (case readConfig w (joinPath d f) of
                    Inl e \<Rightarrow> ([], Thrown e) | Inr cfg \<Rightarrow> sendRequest w root cfg spec))
         \<and> (2 \<le> length fs \<longrightarrow>
               execute_part_002 w spec = ([], Thrown (Error (multipleConfigsMessage fs))))
         \<and> (fs = [] \<longrightarrow> execute w spec = ([], Thrown (Error ''No FHIR config found'')))
         \<and> (fs \<noteq> [] \<longrightarrow>
               (\<exists>f \<in> set fs.
                  (\<forall>g \<in> set fs. mtime w (joinPath d g) \<le> mtime w (joinPath d f)) \<and>
                  execute w spec =
                    (case readConfig w (joinPath d f) of
                       Inl e \<Rightarrow> ([], Thrown e) | Inr cfg \<Rightarrow> sendRequest w root cfg spec))))"
proof -
  have listing: "(configFiles w d = None) = (\<not> isDirectory w d \<or> denied w d)"
    by (auto simp: configFiles_def readdirSync_def)
  have failing: "configFiles w d = None \<longrightarrow>
           execute_part_002 w spec = ([], Thrown (IOError d))
         \<and> execute w spec = ([], Thrown (IOError d))"
    using root no_name dir
    by (simp add: execute_part_002_def execute_def execute_with_def loadConfig_part_002_def
        loadConfig_def Let_def)
  have listed: "(fs = [] \<longrightarrow> execute_part_002 w spec = ([], Thrown (Error noConfigsMessage)))
         \<and> (\<forall>f. fs = [f] \<longrightarrow>
               execute_part_002 w spec =
                 (case readConfig w (joinPath d f) of
                    Inl e \<Rightarrow> ([], Thrown e) | Inr cfg \<Rightarrow> sendRequest w root cfg spec))
         \<and> (2 \<le> length fs \<longrightarrow>
               execute_part_002 w spec = ([], Thrown (Error (multipleConfigsMessage fs))))
         \<and> (fs = [] \<longrightarrow> execute w spec = ([], Thrown (Error ''No FHIR config found'')))
         \<and> (fs \<noteq> [] \<longrightarrow>
               (\<exists>f \<in> set fs.
                  (\<forall>g \<in> set fs. mtime w (joinPath d g) \<le> mtime w (joinPath d f)) \<and>
                  execute w spec =
                    (case readConfig w (joinPath d f) of
                       Inl e \<Rightarrow> ([], Thrown e) | Inr cfg \<Rightarrow> sendRequest w root cfg spec)))"
    if fs: "configFiles w d = Some fs" for fs
  proof -
    have strict0: "fs = [] \<longrightarrow> execute_part_002 w spec = ([], Thrown (Error noConfigsMessage))"
      using root no_name dir fs
      by (simp add: execute_part_002_def execute_with_def loadConfig_part_002_def Let_def)
    have strict1: "\<forall>f. fs = [f] \<longrightarrow>
             execute_part_002 w spec =
               (case readConfig w (joinPath d f) of
                  Inl e \<Rightarrow> ([], Thrown e) | Inr cfg \<Rightarrow> sendRequest w root cfg spec)"
      using root no_name dir fs
      by (auto simp: execute_part_002_def execute_with_def loadConfig_part_002_def Let_def
          split: sum.splits)
    have strict2: "2 \<le> length fs \<longrightarrow>
             execute_part_002 w spec = ([], Thrown (Error (multipleConfigsMessage fs)))"
      using root no_name dir fs
      by (auto simp: execute_part_002_def execute_with_def loadConfig_part_002_def Let_def)
    have recent0: "fs = [] \<longrightarrow> execute w spec = ([], Thrown (Error ''No FHIR config found''))"
      using root no_name dir fs
      by (auto simp: execute_def execute_with_def loadConfig_def Let_def byRecency_def)
    have recent1: "fs \<noteq> [] \<longrightarrow>
             (\<exists>f \<in> set fs.
                (\<forall>g \<in> set fs. mtime w (joinPath d g) \<le> mtime w (joinPath d f)) \<and>
                execute w spec =
                  (case readConfig w (joinPath d f) of
                     Inl e \<Rightarrow> ([], Thrown e) | Inr cfg \<Rightarrow> sendRequest w root cfg spec))"
    proof
      assume ne: "fs \<noteq> []"
      then obtain p ps where ps: "byRecency w d fs = p # ps"
        using byRecency_Nil [of w d fs] by (cases "byRecency w d fs") auto
      from byRecency_head [OF ps] obtain f where
        f: "f \<in> set fs" "p = joinPath d f"
        and mx: "\<forall>q \<in> joinPath d ` set fs. mtime w q \<le> mtime w p" by auto
      have "execute w spec =
          (case readConfig w p of Inl e \<Rightarrow> ([], Thrown e) | Inr cfg \<Rightarrow> sendRequest w root cfg spec)"
        using root no_name dir fs ps
        by (simp add: execute_def execute_with_def loadConfig_def Let_def split: sum.splits)
      then show "\<exists>f \<in> set fs.
                (\<forall>g \<in> set fs. mtime w (joinPath d g) \<le> mtime w (joinPath d f)) \<and>
                execute w spec =
                  (case readConfig w (joinPath d f) of
                     Inl e \<Rightarrow> ([], Thrown e) | Inr cfg \<Rightarrow> sendRequest w root cfg spec)"
        using f mx by auto
    qed
    show ?thesis using strict0 strict1 strict2 recent0 recent1 by blast
  qed
  show ?thesis using listing failing listed by blast
qed

theorem config_selection_witness:
  "findProjectRoot world_two = Inr [''proj'']
   \<and> \<not> truthy_str (configName spec_get)
   \<and> configFiles world_two [''proj'', ''.fhir-configs''] = Some [''a.json'', ''b.json'']
   \<and> execute_part_002 world_two spec_get
       = ([], Thrown (Error (multipleConfigsMessage [''a.json'', ''b.json''])))
   \<and> joinWith '', '' (map (removeFirst ''.json'') [''a.json'', ''b.json'']) = ''a, b''
   \<and> findProjectRoot world_file = Inr [''proj'']
   \<and> \<not> isDirectory world_file [''proj'', ''.fhir-configs'']
   \<and> execute_part_002 world_file spec_get = ([], Thrown (IOError [''proj'', ''.fhir-configs'']))
   \<and> execute world_file spec_get = ([], Thrown (IOError [''proj'', ''.fhir-configs'']))"
proof -
  have r: "findProjectRoot world_two = Inr [''proj'']"
    by (simp add: exec_defs example_defs)
  have n: "\<not> truthy_str (configName spec_get)"
    by (simp add: spec_get_def truthy_str_def)
  have d: "[''proj'', ''.fhir-configs''] = joinPath [''proj''] ''.fhir-configs''"
    by (simp add: joinPath_def)
  have fs: "configFiles world_two [''proj'', ''.fhir-configs''] = Some [''a.json'', ''b.json'']"
    by (simp add: exec_defs example_defs)
  have r': "findProjectRoot world_file = Inr [''proj'']"
    by (simp add: exec_defs example_defs)
  have nd: "\<not> isDirectory world_file [''proj'', ''.fhir-configs'']"
    by (simp add: exec_defs example_defs)
  show ?thesis
    using config_selection [OF r n d] config_selection [OF r' n d] r n fs r' nd by simp
qed

text \<open>
  With two config files and no \<open>configName\<close>, \<open>execute\<close> of
  \<open>src/assets/lib/fhir-request.ts\<close> does not fail: it sends the request with the newer file.
\<close>

theorem most_recent_config_counterexample:
  "configName spec_get = None
   \<and> configFiles world_two [''proj'', ''.fhir-configs''] = Some [''a.json'', ''b.json'']
   \<and> readConfig world_two [''proj'', ''.fhir-configs'', ''b.json''] = Inr cfgB
   \<and> execute world_two spec_get
       = ([Fetch \<lparr>url = ''http://b.example/fhir/metadata'', req_method = ''GET'',
                  req_headers = [(''Accept'', ''application/fhir+json''),
                                 (''Authorization'', ''Bearer tok'')],
                  req_body = None\<rparr>,
           WriteFile [''proj'', ''req'', ''response-metadata.json'']
             (JsonText (responseMetadata world_two okEmpty)),
           WriteFile [''proj'', ''req'', ''response-body.txt''] (Text [])],
          Returned)"
  by (simp add: exec_defs example_defs)

text \<open>
  Claim C5, as the code has it. In both copies of \<open>execute\<close>, a response with status 400 or
  more leaves this trace when both files can be written: the request, the write of
  \<open>response-metadata.json\<close>, the write of \<open>response-body.json\<close> or
  \<open>response-body.txt\<close>, the line \<open>Error response received\<close>, and only then the exit with
  code 1. Neither write is guarded: when the metadata file cannot be written the run ends in
  the error of that write with nothing written, and when only the body file cannot be written
  it ends in the error of that write with the metadata file alone; in neither case is the exit
  reached.
\<close>

theorem error_status_writes_then_exits:
  assumes "findProjectRoot w = Inr root" and "load w root (configName spec) = Inr cfg"
    and "buildRequest w root cfg spec = Inr req" and "fetch w req = Some r" and "400 \<le> status r"
    and "load = loadConfig \<and> run = execute \<or> load = loadConfig_part_002 \<and> run = execute_part_002"
    and "metadataPath = joinPath (outputDirOf w spec) ''response-metadata.json''"
    and "bodyPath = joinPath (outputDirOf w spec) (''response-body.'' @ responseExt w r)"
  shows "(writable w metadataPath \<and> writable w bodyPath \<longrightarrow>
            run w spec =
              ([Fetch req,
                WriteFile metadataPath (JsonText (responseMetadata w r)),
                WriteFile bodyPath (responseContent w r),
                ConsoleError (nl @ ''Error response received'')],
               Exited 1))
     \<and> (\<not> writable w metadataPath \<longrightarrow> run w spec = ([Fetch req], Thrown (IOError metadataPath)))
     \<and> (writable w metadataPath \<and> \<not> writable w bodyPath \<longrightarrow>
            run w spec =
              ([Fetch req, WriteFile metadataPath (JsonText (responseMetadata w r))],
               Thrown (IOError bodyPath)))
     \<and> (responseExt w r = ''json'' \<or> responseExt w r = ''txt'')"
proof -
  have "run = execute_with load"
    using assms(6) by (auto simp: execute_def execute_part_002_def)
  then show ?thesis
    using assms(1-5,7,8)
    by (simp add: execute_with_def sendRequest_def handleResponse_def responseExt_def Let_def
        split: option.splits)
qed

theorem error_status_writes_then_exits_witness:
  "findProjectRoot world_one = Inr [''proj'']
   \<and> loadConfig_part_002 world_one [''proj''] (configName spec_missing) = Inr cfgA
   \<and> buildRequest world_one [''proj''] cfgA spec_missing = Inr req_missing
   \<and> fetch world_one req_missing = Some notFound
   \<and> status notFound = 404
   \<and> writable world_one [''proj'', ''req'', ''response-metadata.json'']
   \<and> writable world_one [''proj'', ''req'', ''response-body.txt'']
   \<and> execute_part_002 world_one spec_missing =
      ([Fetch req_missing,
        WriteFile [''proj'', ''req'', ''response-metadata.json'']
          (JsonText (responseMetadata world_one notFound)),
        WriteFile [''proj'', ''req'', ''response-body.txt''] (Text (wide ''no such resource'')),
        ConsoleError (nl @ ''Error response received'')],
       Exited 1)"
proof -
  have r: "findProjectRoot world_one = Inr [''proj'']"
    by (simp add: exec_defs example_defs)
  have c: "loadConfig_part_002 world_one [''proj''] (configName spec_missing) = Inr cfgA"
    by (simp add: exec_defs example_defs)
  have b: "buildRequest world_one [''proj''] cfgA spec_missing = Inr req_missing"
    by (simp add: exec_defs example_defs req_missing_def)
  have f: "fetch world_one req_missing = Some notFound"
    by (simp add: example_defs req_missing_def)
  have s: "400 \<le> status notFound"
    by (simp add: notFound_def)
  have m: "[''proj'', ''req'', ''response-metadata.json'']
      = joinPath (outputDirOf world_one spec_missing) ''response-metadata.json''"
    by (simp add: exec_defs example_defs)
  have p: "[''proj'', ''req'', ''response-body.txt'']
      = joinPath (outputDirOf world_one spec_missing) (''response-body.'' @ responseExt world_one notFound)"
    by (simp add: exec_defs example_defs)
  have wm: "writable world_one [''proj'', ''req'', ''response-metadata.json'']"
    by (simp add: exec_defs example_defs)
  have wb: "writable world_one [''proj'', ''req'', ''response-body.txt'']"
    by (simp add: exec_defs example_defs)
  have c': "responseContent world_one notFound = Text (wide ''no such resource'')"
    by (simp add: exec_defs example_defs)
  show ?thesis
    using error_status_writes_then_exits
      [where load = loadConfig_part_002 and run = execute_part_002, OF r c b f s _ m p]
      r c b f wm wb c'
    by (simp add: notFound_def)
qed

text \<open>
  The same request made from a script whose \<open>callerDir\<close> does not exist: the response has
  status 404, no file is written and the run ends in the error of the first write, not in an
  exit.
\<close>

theorem missing_directory_counterexample:
  "fetch world_one req_missing = Some notFound
   \<and> status notFound = 404
   \<and> callerDir spec_gone = Some ''/proj/gone''
   \<and> \<not> existsSync world_one [''proj'', ''gone'']
   \<and> execute_part_002 world_one spec_gone
       = ([Fetch req_missing], Thrown (IOError [''proj'', ''gone'', ''response-metadata.json'']))
   \<and> execute world_one spec_gone
       = ([Fetch req_missing], Thrown (IOError [''proj'', ''gone'', ''response-metadata.json'']))"
  by (simp add: exec_defs example_defs req_missing_def)

text \<open>
  Claim C7, as the code has it. The headers of the request that \<open>execute\<close> sends:
  \<open>Accept\<close> is \<open>application/fhir+json\<close> unless the caller's headers name another value;
  \<open>Authorization\<close> is the bearer token when the config has a non-empty access token and its
  mode is not \<open>open\<close>, and the caller's own entry (if any) otherwise; \<open>Content-Type\<close> is
  \<open>application/fhir+json\<close> when a body file is given, and the caller's own entry (if any)
  otherwise; every other header is the caller's.
\<close>

theorem request_headers:
  assumes "findProjectRoot w = Inr root" and "load w root (configName spec) = Inr cfg"
    and "Fetch req \<in> set (fst (execute_with load w spec))"
  shows "map_of (req_headers req) ''Accept''
       = Some (case callerHeader spec ''Accept'' of None \<Rightarrow> ''application/fhir+json'' | Some v \<Rightarrow> v) \<and>
     map_of (req_headers req) ''Authorization''
       = (if truthy_str (accessToken cfg) \<and> mode cfg \<noteq> ''open''
          then Some (''Bearer '' @ the (accessToken cfg)) else callerHeader spec ''Authorization'') \<and>
     map_of (req_headers req) ''Content-Type''
       = (if truthy_str (bodyFile spec) then Some ''application/fhir+json''
          else callerHeader spec ''Content-Type'') \<and>
     (\<forall>k. k \<notin> {''Accept'', ''Authorization'', ''Content-Type''} \<longrightarrow>
          map_of (req_headers req) k = callerHeader spec k)"
proof -
  have "map_of (req_headers req) k =
     (if k = ''Content-Type'' \<and> truthy_str (bodyFile spec) then Some ''application/fhir+json''
      else map_of (baseHeaders cfg spec) k)" for k
    by (rule buildRequest_headers [OF root_cfg_of_fetch [OF assms]])
  then show ?thesis
    by (auto simp: baseHeaders_lookup split: option.splits)
qed

theorem request_headers_witness:
  "findProjectRoot world_two = Inr [''proj'']
   \<and> loadConfig world_two [''proj''] (configName spec_post) = Inr cfgB
   \<and> Fetch req_post \<in> set (fst (execute world_two spec_post))
   \<and> map_of (req_headers req_post) ''Accept'' = Some ''application/fhir+json''
   \<and> map_of (req_headers req_post) ''Authorization'' = Some ''Bearer tok''
   \<and> map_of (req_headers req_post) ''Content-Type'' = Some ''application/fhir+json''
   \<and> map_of (req_headers req_post) ''Prefer'' = Some ''return=representation''"
proof -
  have r: "findProjectRoot world_two = Inr [''proj'']"
    by (simp add: exec_defs example_defs)
  have c: "loadConfig world_two [''proj''] (configName spec_post) = Inr cfgB"
    by (simp add: exec_defs example_defs)
  have f: "Fetch req_post \<in> set (fst (execute_with loadConfig world_two spec_post))"
    by (simp add: exec_defs example_defs req_post_def)
  show ?thesis
    using request_headers [OF r c f] r c f
    by (simp add: execute_def callerHeader_def spec_post_def cfgB_def truthy_str_def)
qed

text \<open>
  A config in mode \<open>smart\<close> without a token and a caller that asks for \<open>text/html\<close>:
  the request carries no \<open>Authorization\<close>, and its \<open>Accept\<close> is the caller's.
\<close>

theorem accept_and_bearer_counterexample:
  "fst (execute world_c spec_html)
     = [Fetch \<lparr>url = ''http://c.example/fhir/metadata'', req_method = ''GET'',
               req_headers = [(''Accept'', ''text/html'')], req_body = None\<rparr>,
        WriteFile [''proj'', ''req'', ''response-metadata.json'']
          (JsonText (responseMetadata world_c okEmpty)),
        WriteFile [''proj'', ''req'', ''response-body.txt''] (Text [])]
   \<and> mode cfgC \<noteq> ''open''
   \<and> loadConfig world_c [''proj''] (configName spec_html) = Inr cfgC"
  by (simp add: exec_defs example_defs)

text \<open>
  Claim C10, as the code has it. The request carries an \<open>Authorization\<close> header exactly when
  the config has a non-empty access token and a mode other than \<open>open\<close>, or the caller's
  headers bring one. Without such a token (whatever the mode) the executor adds none: the header
  is the caller's own entry, if there is one.
\<close>

theorem authorization_header:
  assumes "findProjectRoot w = Inr root" and "load w root (configName spec) = Inr cfg"
    and "Fetch req \<in> set (fst (execute_with load w spec))"
  shows "(map_of (req_headers req) ''Authorization'' \<noteq> None)
       = (truthy_str (accessToken cfg) \<and> mode cfg \<noteq> ''open''
          \<or> callerHeader spec ''Authorization'' \<noteq> None)
     \<and> (if truthy_str (accessToken cfg) \<and> mode cfg \<noteq> ''open''
        then map_of (req_headers req) ''Authorization'' = Some (''Bearer '' @ the (accessToken cfg))
        else map_of (req_headers req) ''Authorization'' = callerHeader spec ''Authorization'')"
proof -
  have "map_of (req_headers req) ''Authorization'' = map_of (baseHeaders cfg spec) ''Authorization''"
    using buildRequest_headers [OF root_cfg_of_fetch [OF assms], of "''Authorization''"] by simp
  then show ?thesis
    by (auto simp: baseHeaders_lookup split: option.splits)
qed

theorem authorization_header_witness:
  "findProjectRoot world_c = Inr [''proj'']
   \<and> loadConfig_part_002 world_c [''proj''] (configName spec_get) = Inr cfgC
   \<and> Fetch req_get_c \<in> set (fst (execute_part_002 world_c spec_get))
   \<and> accessToken cfgC = None
   \<and> callerHeader spec_get ''Authorization'' = None
   \<and> map_of (req_headers req_get_c) ''Authorization'' = None"
proof -
  have r: "findProjectRoot world_c = Inr [''proj'']"
    by (simp add: exec_defs example_defs)
  have c: "loadConfig_part_002 world_c [''proj''] (configName spec_get) = Inr cfgC"
    by (simp add: exec_defs example_defs)
  have f: "Fetch req_get_c \<in> set (fst (execute_with loadConfig_part_002 world_c spec_get))"
    by (simp add: exec_defs example_defs req_get_c_def)
  show ?thesis
    using authorization_header [OF r c f] r c f
    by (simp add: execute_part_002_def callerHeader_def spec_get_def cfgC_def truthy_str_def)
qed

text \<open>
  The config has no access token, the caller passes \<open>Authorization\<close> in \<open>spec.headers\<close>:
  an \<open>Authorization\<close> header is sent.
\<close>

theorem caller_authorization_counterexample:
  "loadConfig world_c [''proj''] (configName spec_basic) = Inr cfgC
   \<and> accessToken cfgC = None
   \<and> hd (fst (execute world_c spec_basic))
     = Fetch \<lparr>url = ''http://c.example/fhir/metadata'', req_method = ''GET'',
              req_headers = [(''Accept'', ''application/fhir+json''),
                             (''Authorization'', ''Basic dXNlcjpwdw=='')],
              req_body = None\<rparr>"
  by (simp add: exec_defs example_defs)

section \<open>Theorems: names in the content placeholders\<close>

lemma split_on_ne: "split_on c s \<noteq> []"
  by (induction s) (auto split: list.splits)

lemma join_split_on: "joinWith [c] (split_on c s) = s"
proof (induction s)
  case Nil
  show ?case by simp
next
  case (Cons x xs)
  obtain t ts where t: "split_on c xs = t # ts"
    using split_on_ne [of c xs] by (cases "split_on c xs") auto
  show ?case
    using Cons t by (cases ts) auto
qed

lemma split_on_tokens: "t \<in> set (split_on c s) \<Longrightarrow> c \<notin> set t"
proof (induction s arbitrary: t)
  case Nil
  then show ?case by simp
next
  case (Cons x xs)
  obtain u us where u: "split_on c xs = u # us"
    using split_on_ne [of c xs] by (cases "split_on c xs") auto
  show ?case
    using Cons u by (auto split: if_splits)
qed

lemma take_is_prefix: "(take (length t) s = t) = (\<exists>post. s = t @ post)"
proof
  assume "take (length t) s = t"
  then have "s = t @ drop (length t) s"
    by (metis append_take_drop_id)
  then show "\<exists>post. s = t @ post" ..
next
  assume "\<exists>post. s = t @ post"
  then show "take (length t) s = t" by auto
qed

lemma includes_str_iff: "includes_str s t = (\<exists>pre post. s = pre @ t @ post)"
proof (induction s)
  case Nil
  show ?case by auto
next
  case (Cons c cs)
  have "(\<exists>pre post. c # cs = pre @ t @ post)
      = ((\<exists>post. c # cs = t @ post) \<or> (\<exists>pre post. cs = pre @ t @ post))"
  proof
    assume "\<exists>pre post. c # cs = pre @ t @ post"
    then obtain pre post where e: "c # cs = pre @ t @ post" by blast
    show "(\<exists>post. c # cs = t @ post) \<or> (\<exists>pre post. cs = pre @ t @ post)"
    proof (cases pre)
      case Nil
      then show ?thesis using e by auto
    next
      case (Cons p ps)
      then have "cs = ps @ t @ post" using e by simp
      then show ?thesis by blast
    qed
  next
    assume "(\<exists>post. c # cs = t @ post) \<or> (\<exists>pre post. cs = pre @ t @ post)"
    then show "\<exists>pre post. c # cs = pre @ t @ post"
    proof
      assume "\<exists>post. c # cs = t @ post"
      then obtain post where "c # cs = [] @ t @ post" by auto
      then show ?thesis by blast
    next
      assume "\<exists>pre post. cs = pre @ t @ post"
      then obtain pre post where "c # cs = (c # pre) @ t @ post" by auto
      then show ?thesis by blast
    qed
  qed
  then show ?case
    using Cons take_is_prefix [of t "c # cs"] by simp
qed

lemma stripDr_prefix:
  assumes "\<forall>x \<in> set ws. isSpace x" and "rest = [] \<or> \<not> isSpace (hd rest)"
  shows "stripDr (''Dr.'' @ ws @ rest) = rest"
proof -
  have "dropWhile isSpace (ws @ rest) = dropWhile isSpace rest"
    using assms(1) by (simp add: dropWhile_append2)
  moreover have "dropWhile isSpace rest = rest"
    using assms(2) by (cases rest) auto
  ultimately show ?thesis
    by (simp add: stripDr_def)
qed

text \<open>
  Claim C4, as the code has it. A display name is cut at every single space character (the
  tokens hold no space and joined by spaces give the name back; no other white space
  separates). Patient: the given name is the first token; the family name is the second of two
  tokens and \<open>Patient\<close> when the name is one token. Author: \<open>Dr.\<close> and the white space after
  it are stripped first; the given name is the first token of the rest and the family name the
  last, \<open>Example\<close> and \<open>Provider\<close> standing in for an empty token. The suffix is
  \<open>MD\<close> exactly when the author display contains \<open>MD\<close>, and empty otherwise.
\<close>

theorem name_parsing:
  shows "joinWith '' '' (split_on CHR '' '' s) = s
     \<and> (\<forall>t \<in> set (split_on CHR '' '' s). CHR '' '' \<notin> set t)
     \<and> patientGiven options = hd (split_on CHR '' '' (patientNameOf options))
     \<and> (\<forall>g f. split_on CHR '' '' (patientNameOf options) = [g, f] \<longrightarrow> patientFamily options = f)
     \<and> (\<forall>g. split_on CHR '' '' (patientNameOf options) = [g] \<longrightarrow> patientFamily options = ''Patient'')
     \<and> authorParts options = split_on CHR '' '' (stripDr (authorDisplayOf options))
     \<and> authorGiven options
         = (if hd (authorParts options) = [] then ''Example'' else hd (authorParts options))
     \<and> authorFamily options
         = (if last (authorParts options) = [] then ''Provider'' else last (authorParts options))
     \<and> authorSuffix options
         = (if \<exists>pre post. authorDisplayOf options = pre @ ''MD'' @ post then ''MD'' else [])
     \<and> (\<forall>ws rest. (\<forall>x \<in> set ws. isSpace x) \<longrightarrow> (rest = [] \<or> \<not> isSpace (hd rest)) \<longrightarrow>
            stripDr (''Dr.'' @ ws @ rest) = rest)
     \<and> (take 3 d \<noteq> ''Dr.'' \<longrightarrow> stripDr d = d)"
proof -
  have tokens: "\<forall>t \<in> set (split_on CHR '' '' s). CHR '' '' \<notin> set t"
    using split_on_tokens by blast
  have pg: "patientGiven options = hd (split_on CHR '' '' (patientNameOf options))"
    using split_on_ne [of "CHR '' ''" "patientNameOf options"]
    by (cases "split_on CHR '' '' (patientNameOf options)") (auto simp: patientGiven_def nth_opt_def)
  have pf2: "\<forall>g f. split_on CHR '' '' (patientNameOf options) = [g, f] \<longrightarrow> patientFamily options = f"
    by (simp add: patientFamily_def nth_opt_def)
  have pf1: "\<forall>g. split_on CHR '' '' (patientNameOf options) = [g] \<longrightarrow> patientFamily options = ''Patient''"
    by (simp add: patientFamily_def nth_opt_def)
  have ne: "authorParts options \<noteq> []"
    by (simp add: authorParts_def split_on_ne)
  have ag: "authorGiven options
         = (if hd (authorParts options) = [] then ''Example'' else hd (authorParts options))"
    using ne by (cases "authorParts options") (auto simp: authorGiven_def nth_opt_def)
  have af: "authorFamily options
         = (if last (authorParts options) = [] then ''Provider'' else last (authorParts options))"
    using ne by (simp add: authorFamily_def nth_opt_def last_conv_nth)
  have su: "authorSuffix options
         = (if \<exists>pre post. authorDisplayOf options = pre @ ''MD'' @ post then ''MD'' else [])"
    by (simp add: authorSuffix_def includes_str_iff)
  have sd: "\<forall>ws rest. (\<forall>x \<in> set ws. isSpace x) \<longrightarrow> (rest = [] \<or> \<not> isSpace (hd rest)) \<longrightarrow>
            stripDr (''Dr.'' @ ws @ rest) = rest"
    using stripDr_prefix by blast
  have nd: "take 3 d \<noteq> ''Dr.'' \<longrightarrow> stripDr d = d"
    by (simp add: stripDr_def)
  show ?thesis
    using join_split_on [of "CHR '' ''" s] tokens pg pf2 pf1 ag af su sd nd
    by (simp add: authorParts_def)
qed

lemmas name_defs = patientNameOf_def patientGiven_def patientFamily_def authorDisplayOf_def authorParts_def
  authorGiven_def authorFamily_def authorSuffix_def or_default_def nth_opt_def stripDr_def isSpace_def

theorem name_parsing_witness:
  "split_on CHR '' '' (patientNameOf opts_names) = [''Jane'', ''Doe'']
   \<and> patientGiven opts_names = ''Jane'' \<and> patientFamily opts_names = ''Doe''
   \<and> stripDr (''Dr.'' @ '' '' @ ''Alice Smith MD'') = ''Alice Smith MD''
   \<and> authorParts opts_names = [''Alice'', ''Smith'', ''MD'']
   \<and> authorGiven opts_names = ''Alice'' \<and> authorFamily opts_names = ''MD''
   \<and> authorSuffix opts_names = ''MD''"
proof -
  note t = name_parsing [of "''Jane Doe''" opts_names "''Smith''"]
  have p: "split_on CHR '' '' (patientNameOf opts_names) = [''Jane'', ''Doe'']"
    by (simp add: name_defs opts_names_def opts0_def)
  have g: "patientGiven opts_names = ''Jane''"
    using t p by simp
  have f: "patientFamily opts_names = ''Doe''"
    using t p by blast
  have q: "\<forall>ws rest. (\<forall>x \<in> set ws. isSpace x) \<longrightarrow> (rest = [] \<or> \<not> isSpace (hd rest)) \<longrightarrow>
            stripDr (''Dr.'' @ ws @ rest) = rest"
    using t by blast
  have s: "stripDr (''Dr.'' @ '' '' @ ''Alice Smith MD'') = ''Alice Smith MD''"
    using q [rule_format, of "'' ''" "''Alice Smith MD''"] by (simp add: isSpace_def)
  have a: "authorParts opts_names = [''Alice'', ''Smith'', ''MD'']"
    by (simp add: name_defs opts_names_def opts0_def)
  have ag: "authorGiven opts_names = ''Alice''"
    using t a by simp
  have af: "authorFamily opts_names = ''MD''"
    using t a by simp
  have su: "authorSuffix opts_names = ''MD''"
    by (simp add: name_defs opts_names_def opts0_def)
  show ?thesis
    using p g f s a ag af su by blast
qed

text \<open>
  A patient name of one token: its last token is not the family name, \<open>Patient\<close> is.
\<close>

theorem single_token_patient_counterexample:
  "patientNameOf opts_cher = ''Cher''
   \<and> split_on CHR '' '' ''Cher'' = [''Cher'']
   \<and> patientGiven opts_cher = ''Cher''
   \<and> patientFamily opts_cher = ''Patient''"
  by (simp add: name_defs opts_cher_def opts0_def)

section \<open>Theorems: placeholder substitution\<close>

lemma wide_append [simp]: "wide (a @ b) = wide a @ wide b"
  by (simp add: wide_def)

lemma wide_Nil [simp]: "wide [] = []"
  by (simp add: wide_def)

lemma length_wide [simp]: "length (wide s) = length s"
  by (simp add: wide_def)

lemma wide_eq_iff [simp]: "(wide a = wide b) = (a = b)"
  unfolding wide_def by (rule inj_map_eq_map) (simp add: inj_on_def)

lemma set_wide: "(of_char c \<in> set (wide s)) = (c \<in> set s)"
  by (auto simp: wide_def)



lemma replaceFrom_Nil [simp]: "replaceFrom pat rep b [] = []"
  by (subst replaceFrom.simps) simp
























section \<open>Theorems: the parsed document\<close>

lemma fieldOf_simps [simp]:
  "fieldOf (JObject kvs) k = map_of kvs k" "fieldOf JNull k = None" "fieldOf (JBool b) k = None"
  "fieldOf (JNumber n) k = None" "fieldOf (JString s) k = None" "fieldOf (JArray xs) k = None"
  by (simp_all add: fieldOf_def)






lemma dropEmptyEncounter_supplied:
  "truthy_str (encounterReference options) \<Longrightarrow> dropEmptyEncounter options p = Inr p"
  by (simp add: dropEmptyEncounter_def)









lemmas doc_defs = tplPlain_def tplContained_def tplNullContained_def tplArray_def containedTxt_def
  practitionerP1_def encounterE1_def parseTable_def world_doc_def opts_contained_def
  opts_badContained_def opts_emptyContained_def opts0_def world0_def tplEnc_def txtEncEmpty_def
  txtEncVisit_def txtEncDollar_def encDoc_def opts_visit_def opts_dollar_def wide_def





text \<open>
  Claim C9, as the code has it. In the older localizer, for a template that parses to an object:
  an absent encounter reference means \<open>#e1\<close>; when the reference in effect is \<open>#e1\<close> and
  \<open>contained\<close> is absent or falsy, the output gains \<open>contained\<close> with the one Encounter
  \<open>e1\<close> whose subject is the patient, and keeps every other field; when the reference is
  another one, or \<open>contained\<close> holds a truthy value, the output is the parsed template.
\<close>

theorem synthesized_encounter:
  assumes tpl: "jsonParse w (substituteTemplate_part_001 w t options b n ct) = Some (JObject kvs)"
  shows "(encounterReference options = None \<longrightarrow> or_default (encounterReference options) ''#e1'' = ''#e1'')
     \<and> (or_default (encounterReference options) ''#e1'' = ''#e1''
          \<and> \<not> truthy_opt (map_of kvs ''contained'') \<longrightarrow>
         (\<exists>out. localizeTemplate_part_001 w t options b n ct = Inr out
            \<and> fieldOf out ''contained'' = Some (JArray [e1Encounter (patientId options)])
            \<and> (\<forall>k. k \<noteq> ''contained'' \<longrightarrow> fieldOf out k = map_of kvs k)))
     \<and> (or_default (encounterReference options) ''#e1'' \<noteq> ''#e1''
          \<or> truthy_opt (map_of kvs ''contained'') \<longrightarrow>
         localizeTemplate_part_001 w t options b n ct = Inr (JObject kvs))
     \<and> fieldOf (e1Encounter (patientId options)) ''resourceType'' = Some (JString ''Encounter'')
     \<and> fieldOf (e1Encounter (patientId options)) ''id'' = Some (JString ''e1'')
     \<and> fieldOf (e1Encounter (patientId options)) ''subject''
         = Some (JObject [(''reference'', JString (''Patient/'' @ patientId options))])"
  using tpl
  by (auto simp: localizeTemplate_part_001_def synthesizeContained_def or_default_def update_conv'
      e1Encounter_def)

theorem synthesized_encounter_witness:
  "jsonParse world_doc (substituteTemplate_part_001 world_doc tplPlain opts0 [] 0 ''text/plain'')
       = Some (JObject [(''resourceType'', JString ''DocumentReference'')])
   \<and> encounterReference opts0 = None
   \<and> map_of [(''resourceType'', JString ''DocumentReference'')] ''contained'' = None
   \<and> localizeTemplate_part_001 world_doc tplPlain opts0 [] 0 ''text/plain''
       = Inr (JObject [(''resourceType'', JString ''DocumentReference''),
                       (''contained'', JArray [e1Encounter ''patient-123''])])"
proof -
  have st: "substituteTemplate_part_001 world_doc tplPlain opts0 [] 0 ''text/plain'' = tplPlain"
    by code_simp
  have tpl: "jsonParse world_doc (substituteTemplate_part_001 world_doc tplPlain opts0 [] 0 ''text/plain'')
       = Some (JObject [(''resourceType'', JString ''DocumentReference'')])"
    unfolding st by (simp add: doc_defs)
  have run: "localizeTemplate_part_001 world_doc tplPlain opts0 [] 0 ''text/plain''
       = Inr (JObject [(''resourceType'', JString ''DocumentReference''),
                       (''contained'', JArray [e1Encounter ''patient-123''])])"
    unfolding localizeTemplate_part_001_def st
    by (simp add: doc_defs synthesizeContained_def or_default_def truthy_opt_def)
  show ?thesis
    using synthesized_encounter [OF tpl] tpl run
    by (simp add: opts0_def)
qed

text \<open>
  A template with \<open>"contained": null\<close> has the field, and the encounter is synthesized all
  the same.
\<close>

theorem null_contained_counterexample:
  "jsonParse world_doc (substituteTemplate_part_001 world_doc tplNullContained opts0 [] 0 ''text/plain'')
       = Some (JObject [(''resourceType'', JString ''DocumentReference''), (''contained'', JNull)])
   \<and> localizeTemplate_part_001 world_doc tplNullContained opts0 [] 0 ''text/plain''
       = Inr (JObject [(''resourceType'', JString ''DocumentReference''),
                       (''contained'', JArray [e1Encounter ''patient-123''])])"
proof -
  have st: "substituteTemplate_part_001 world_doc tplNullContained opts0 [] 0 ''text/plain''
      = tplNullContained"
    by code_simp
  show ?thesis
    unfolding localizeTemplate_part_001_def st
    by (simp add: doc_defs synthesizeContained_def or_default_def truthy_opt_def)
qed


section \<open>Theorems: base64\<close>




















section \<open>Theorems: \<open>localizeDocumentReference\<close>\<close>














lemma probeUp_events:
  "e \<in> set (fst (probeUp w up)) \<Longrightarrow> \<exists>p. e = Exists (p @ [''.fhir-configs''])"
  by (induction up) (auto split: if_splits prod.splits)

lemma getProjectRoot_events:
  "e \<in> set (fst (getProjectRoot w)) \<Longrightarrow> \<exists>p. e = Exists (p @ [''.fhir-configs''])"
  using probeUp_events [of e w "rev (cwd w)"]
  by (auto simp: getProjectRoot_def split: prod.splits option.splits)

lemma getSkillRoot_found:
  assumes "snd (getProjectRoot w) = Inr r"
  shows "getSkillRoot w = (fst (getProjectRoot w), Inr (joinPath r ''.claude/skills/write-clinical-notes''))"
  using assms by (cases "getProjectRoot w") (simp add: getSkillRoot_def andThen_def)

lemma unknown_type_found:
  assumes "lookupKey TEMPLATE_MAPPINGS (type options) = Missing"
    and "snd (getProjectRoot w) = Inr r"
  shows "localizeDocumentReference w options =
     (fst (getProjectRoot w) @ fst (getProjectRoot w),
      Inl (Error (unknownTypeMessage (type options))))"
  using assms getSkillRoot_found [OF assms(2)]
  by (cases "getProjectRoot w") (simp add: localizeDocumentReference_def localizeMapped_def andThen_def)

lemma no_project_root:
  assumes "snd (getProjectRoot w) = Inl e"
  shows "localizeDocumentReference w options = (fst (getProjectRoot w), Inl e)"
  using assms
  by (cases "getProjectRoot w") (simp add: localizeDocumentReference_def andThen_def)

lemma getProjectRoot_error:
  assumes "snd (getProjectRoot w) = Inl e"
  shows "e = Error ''Could not find project root (no .fhir-configs directory found)''"
  using assms by (auto simp: getProjectRoot_def split: prod.splits option.splits)

lemma available_keys:
  "joinWith '', '' (map fst TEMPLATE_MAPPINGS) =
     ''consultation, progress, pdf, cda, xhtml, html, large, patient-asserted''"
  by code_simp

text \<open>
  Claim C6, as the code has it. For a type that is neither a key of \<open>TEMPLATE_MAPPINGS\<close> nor a name every
  object inherits: \<open>localizeDocumentReference\<close> first looks for the project root, twice;
  if it is found the call throws the unknown type error, which lists the eight keys, and if it
  is not found the call throws the project root error instead. In both cases the only events
  are existence probes of \<open>.fhir-configs\<close>. The command line entry point \<open>main\<close>,
  given the required arguments, prints the unknown type message with the keys and exits with
  code 1 without touching the file system.
\<close>

theorem unknown_type_rejected:
  assumes key: "map_of TEMPLATE_MAPPINGS (type options) = None"
    and own: "type options \<notin> set objectPrototypeNames"
  shows "(snd (getProjectRoot w) \<noteq> Inl (Error ''Could not find project root (no .fhir-configs directory found)'')
            \<longrightarrow> localizeDocumentReference w options =
                  (fst (getProjectRoot w) @ fst (getProjectRoot w),
                   Inl (Error (''Unknown document type: '' @ type options @
                     ''. Available: consultation, progress, pdf, cda, xhtml, html, large, patient-asserted''))))
       \<and> (snd (getProjectRoot w) = Inl (Error ''Could not find project root (no .fhir-configs directory found)'')
            \<longrightarrow> localizeDocumentReference w options =
                  (fst (getProjectRoot w),
                   Inl (Error ''Could not find project root (no .fhir-configs directory found)'')))
       \<and> (\<forall>e \<in> set (fst (localizeDocumentReference w options)). \<exists>p. e = Exists (p @ [''.fhir-configs'']))
       \<and> (\<not> v_help v \<and> v_type v = Some (type options) \<and> type options \<noteq> []
              \<and> truthy_str (v_patient_id v) \<and> truthy_str (v_server v)
            \<longrightarrow> main w v =
                  ([ConsoleError (''Error: Unknown type '' @ dq @ type options @ dq),
                    ConsoleError ''Available types: consultation, progress, pdf, cda, xhtml, html, large, patient-asserted''],
                   Exited 1))"
proof -
  have miss: "lookupKey TEMPLATE_MAPPINGS (type options) = Missing"
    using key own by (simp add: lookupKey_def)
  let ?none = "Error ''Could not find project root (no .fhir-configs directory found)''"
  have found: "localizeDocumentReference w options =
      (fst (getProjectRoot w) @ fst (getProjectRoot w),
       Inl (Error (''Unknown document type: '' @ type options @
         ''. Available: consultation, progress, pdf, cda, xhtml, html, large, patient-asserted'')))"
    if "snd (getProjectRoot w) \<noteq> Inl ?none"
  proof (cases "snd (getProjectRoot w)")
    case (Inl e)
    then show ?thesis using that getProjectRoot_error [OF Inl] by simp
  next
    case (Inr r)
    show ?thesis
      using unknown_type_found [OF miss Inr]
      by (simp add: unknownTypeMessage_def available_keys)
  qed
  have absent: "localizeDocumentReference w options = (fst (getProjectRoot w), Inl ?none)"
    if "snd (getProjectRoot w) = Inl ?none"
    using no_project_root [OF that, of options] by simp
  have evs: "\<exists>p. e = Exists (p @ [''.fhir-configs''])"
    if "e \<in> set (fst (localizeDocumentReference w options))" for e
  proof (cases "snd (getProjectRoot w) = Inl ?none")
    case True
    then show ?thesis using that absent getProjectRoot_events [of e w] by simp
  next
    case False
    then show ?thesis using that found getProjectRoot_events [of e w] by auto
  qed
  have cli: "main w v =
      ([ConsoleError (''Error: Unknown type '' @ dq @ type options @ dq),
        ConsoleError ''Available types: consultation, progress, pdf, cda, xhtml, html, large, patient-asserted''],
       Exited 1)"
    if "\<not> v_help v \<and> v_type v = Some (type options) \<and> type options \<noteq> []
        \<and> truthy_str (v_patient_id v) \<and> truthy_str (v_server v)"
    using that miss by (simp add: main_def truthy_str_def available_keys)
  show ?thesis using found absent evs cli by blast
qed

text \<open>An unregistered type in the example project, through the library and through \<open>main\<close>.\<close>

theorem unknown_type_rejected_witness:
  "map_of TEMPLATE_MAPPINGS (type opts_unknown) = None
   \<and> type opts_unknown \<notin> set objectPrototypeNames
   \<and> getProjectRoot world_loc = ([Exists [''proj'', ''.fhir-configs'']], Inr [''proj''])
   \<and> localizeDocumentReference world_loc opts_unknown =
       ([Exists [''proj'', ''.fhir-configs''], Exists [''proj'', ''.fhir-configs'']],
        Inl (Error ''Unknown document type: unknown-format. Available: consultation, progress, pdf, cda, xhtml, html, large, patient-asserted''))
   \<and> \<not> v_help cli_unknown \<and> v_type cli_unknown = Some (type opts_unknown)
   \<and> truthy_str (v_patient_id cli_unknown) \<and> truthy_str (v_server cli_unknown)
   \<and> main world_loc cli_unknown =
       ([ConsoleError (''Error: Unknown type '' @ dq @ ''unknown-format'' @ dq),
         ConsoleError ''Available types: consultation, progress, pdf, cda, xhtml, html, large, patient-asserted''],
        Exited 1)"
proof -
  have k: "map_of TEMPLATE_MAPPINGS (type opts_unknown) = None"
    by (simp add: TEMPLATE_MAPPINGS_def opts_unknown_def opts0_def)
  have o: "type opts_unknown \<notin> set objectPrototypeNames"
    by (simp add: objectPrototypeNames_def opts_unknown_def opts0_def)
  have g: "getProjectRoot world_loc = ([Exists [''proj'', ''.fhir-configs'']], Inr [''proj''])"
    by code_simp
  have c: "\<not> v_help cli_unknown \<and> v_type cli_unknown = Some (type opts_unknown)
      \<and> type opts_unknown \<noteq> []
      \<and> truthy_str (v_patient_id cli_unknown) \<and> truthy_str (v_server cli_unknown)"
    by (simp add: cli_unknown_def opts_unknown_def opts0_def truthy_str_def)
  have t: "type opts_unknown = ''unknown-format''"
    by (simp add: opts_unknown_def opts0_def)
  show ?thesis
    using unknown_type_rejected [OF k o, of world_loc cli_unknown] k o g c
    by (simp add: t)
qed

text \<open>
  The same unregistered type with the working directory outside every project: the file
  system is probed and the error is the one of \<open>getProjectRoot\<close>.
\<close>

theorem no_project_root_counterexample:
  "map_of TEMPLATE_MAPPINGS (type opts_unknown) = None
   \<and> localizeDocumentReference world_noroot opts_unknown =
       ([Exists [''tmp'', ''.fhir-configs'']],
        Inl (Error ''Could not find project root (no .fhir-configs directory found)''))"
  by code_simp

end
